theory Spec2Isabelle
  imports Complex_Main "HOL-Library.Sublist"
begin

section \<open>Interview coach: history store, progress tracking, prompts\<close>

text \<open>
  A shallow embedding of \<^verbatim>\<open>service.py\<close> and \<^verbatim>\<open>models.py\<close>.
  Python floats are modelled as \<^typ>\<open>real\<close> (rounding, NaN and infinities are outside the
  model), Python ints as \<^typ>\<open>int\<close>, strings as \<^typ>\<open>string\<close>, and a dict as an
  association list in insertion order, read and written by \<open>dict_get\<close> and \<open>dict_set\<close>.
  A raise is a value \<open>Inl e\<close> of the result type \<open>error + 'a\<close>.
\<close>

subsection \<open>Errors\<close>

datatype error =
    FileNotFoundError
  | PermissionError
  | IsADirectoryError
  | JSONDecodeError
  | KeyError
  | TypeError
  | ValueError
  | AttributeError
  | OverflowError
  | ValidationError

text \<open>Sequencing of two fallible steps: the second runs only when the first returned.\<close>

definition and_then :: "error + 'a \<Rightarrow> ('a \<Rightarrow> error + 'b) \<Rightarrow> error + 'b" where
  "and_then r f = (case r of Inl e \<Rightarrow> Inl e | Inr x \<Rightarrow> f x)"

subsection \<open>Decimal text\<close>

definition digit_char :: "nat \<Rightarrow> char" where
  "digit_char d = char_of (48 + d)"

definition is_digit :: "char \<Rightarrow> bool" where
  "is_digit c = (48 \<le> (of_char c :: nat) \<and> (of_char c :: nat) \<le> 57)"

definition digit_val :: "char \<Rightarrow> nat" where
  "digit_val c = of_char c - 48"

text \<open>\<^verbatim>\<open>str(n)\<close> for a non-negative integer.\<close>

fun str_nat :: "nat \<Rightarrow> string" where
  "str_nat n = (if n < 10 then [digit_char n] else str_nat (n div 10) @ [digit_char (n mod 10)])"

text \<open>\<^verbatim>\<open>"%0wd" % n\<close>: padded with zeros on the left up to width \<open>w\<close>, never cut.\<close>

definition zero_pad :: "nat \<Rightarrow> nat \<Rightarrow> string" where
  "zero_pad w n = replicate (w - length (str_nat n)) (CHR ''0'') @ str_nat n"

text \<open>Reading a run of decimal digits; anything else is no number.\<close>

definition parse_nat :: "string \<Rightarrow> nat option" where
  "parse_nat s =
     (if s \<noteq> [] \<and> list_all is_digit s
      then Some (foldl (\<lambda>a c. 10 * a + digit_val c) 0 s)
      else None)"

subsection \<open>Naive datetimes and their ISO-8601 text\<close>

text \<open>
  The timestamps of the program all come from \<^verbatim>\<open>datetime.now()\<close>: naive datetimes (no
  time zone). A datetime object always satisfies \<open>valid_datetime\<close>; the constructor
  raises ValueError otherwise.
\<close>

record datetime =
  year :: nat
  month :: nat
  day :: nat
  hour :: nat
  minute :: nat
  second :: nat
  microsecond :: nat

definition is_leap :: "nat \<Rightarrow> bool" where
  "is_leap y = (y mod 4 = 0 \<and> (y mod 400 = 0 \<or> y mod 100 \<noteq> 0))"

definition days_in_month :: "nat \<Rightarrow> nat \<Rightarrow> nat" where
  "days_in_month y m =
     (if m = 2 then (if is_leap y then 29 else 28)
      else if m = 4 \<or> m = 6 \<or> m = 9 \<or> m = 11 then 30 else 31)"

definition valid_datetime :: "datetime \<Rightarrow> bool" where
  "valid_datetime d =
     (1 \<le> year d \<and> year d \<le> 9999 \<and> 1 \<le> month d \<and> month d \<le> 12 \<and>
      1 \<le> day d \<and> day d \<le> days_in_month (year d) (month d) \<and>
      hour d < 24 \<and> minute d < 60 \<and> second d < 60 \<and> microsecond d < 1000000)"

text \<open>
  \<^verbatim>\<open>datetime.isoformat()\<close> of a naive datetime: \<^verbatim>\<open>YYYY-MM-DDTHH:MM:SS\<close>, followed by
  \<^verbatim>\<open>.ffffff\<close> when the microsecond is not zero.
\<close>

definition isoformat :: "datetime \<Rightarrow> string" where
  "isoformat d =
     zero_pad 4 (year d) @ ''-'' @ zero_pad 2 (month d) @ ''-'' @ zero_pad 2 (day d) @ ''T'' @
     zero_pad 2 (hour d) @ '':'' @ zero_pad 2 (minute d) @ '':'' @ zero_pad 2 (second d) @
     (if microsecond d = 0 then [] else ''.'' @ zero_pad 6 (microsecond d))"

text \<open>The constructor \<^verbatim>\<open>datetime(y, m, d, H, M, S, us)\<close> with its range checks.\<close>

definition make_datetime :: "nat \<Rightarrow> nat \<Rightarrow> nat \<Rightarrow> nat \<Rightarrow> nat \<Rightarrow> nat \<Rightarrow> nat \<Rightarrow> error + datetime" where
  "make_datetime y m d H M S us =
     (let dt = \<lparr>year = y, month = m, day = d, hour = H, minute = M, second = S, microsecond = us\<rparr>
      in if valid_datetime dt then Inr dt else Inl ValueError)"

text \<open>
  \<^verbatim>\<open>datetime.fromisoformat\<close>, on the two spellings that \<open>isoformat\<close> writes for a naive
  datetime (19 characters, or 26 with the microseconds; the character between date and
  time is free). Python accepts further spellings (a date alone, a UTC offset, and more
  since 3.11); they are outside this model, which answers ValueError for them.
\<close>

definition digits_at :: "string \<Rightarrow> nat \<Rightarrow> nat \<Rightarrow> error + nat" where
  "digits_at s i n =
     (case parse_nat (take n (drop i s)) of None \<Rightarrow> Inl ValueError | Some v \<Rightarrow> Inr v)"

definition fromisoformat :: "string \<Rightarrow> error + datetime" where
  "fromisoformat s =
     (if (length s = 19 \<or> length s = 26) \<and>
         s ! 4 = CHR ''-'' \<and> s ! 7 = CHR ''-'' \<and> s ! 13 = CHR '':'' \<and> s ! 16 = CHR '':'' \<and>
         (if length s = 26 then s ! 19 = CHR ''.'' else True)
      then
        and_then (digits_at s 0 4) (\<lambda>y.
        and_then (digits_at s 5 2) (\<lambda>m.
        and_then (digits_at s 8 2) (\<lambda>d.
        and_then (digits_at s 11 2) (\<lambda>H.
        and_then (digits_at s 14 2) (\<lambda>M.
        and_then (digits_at s 17 2) (\<lambda>S.
        and_then (if length s = 26 then digits_at s 20 6 else Inr 0) (\<lambda>us.
          make_datetime y m d H M S us)))))))
      else Inl ValueError)"

subsection \<open>Dicts\<close>

text \<open>
  A Python dict keeps one entry per key, in insertion order: \<open>dict_set\<close> replaces the
  value of a key in place and appends a new key at the end.
\<close>

fun dict_get :: "('k \<times> 'v) list \<Rightarrow> 'k \<Rightarrow> 'v option" where
  "dict_get [] k = None"
| "dict_get ((k', v) # kvs) k = (if k' = k then Some v else dict_get kvs k)"

fun dict_set :: "('k \<times> 'v) list \<Rightarrow> 'k \<Rightarrow> 'v \<Rightarrow> ('k \<times> 'v) list" where
  "dict_set [] k v = [(k, v)]"
| "dict_set ((k', v') # kvs) k v = (if k' = k then (k, v) # kvs else (k', v') # dict_set kvs k v)"

text \<open>\<^verbatim>\<open>d.get(k, default)\<close>\<close>

definition dict_get_default :: "('k \<times> 'v) list \<Rightarrow> 'k \<Rightarrow> 'v \<Rightarrow> 'v" where
  "dict_get_default d k dflt = (case dict_get d k of None \<Rightarrow> dflt | Some v \<Rightarrow> v)"

text \<open>The entries stored under one key.\<close>

definition entries_for :: "('k \<times> 'v) list \<Rightarrow> 'k \<Rightarrow> 'v list" where
  "entries_for d k = map snd (filter (\<lambda>kv. fst kv = k) d)"

subsection \<open>Python values\<close>

text \<open>
  The values that \<^verbatim>\<open>json.load\<close> returns, and datetimes, which the in-memory history
  holds and \<^verbatim>\<open>json.dump\<close> cannot write by itself.
\<close>

datatype pyval =
    PNone
  | PBool bool
  | PInt int
  | PFloat real
  | PStr string
  | PDatetime datetime
  | PList "pyval list"
  | PDict "(string \<times> pyval) list"

text \<open>\<^verbatim>\<open>k in v\<close> for a string \<open>k\<close>.\<close>

definition py_in :: "string \<Rightarrow> pyval \<Rightarrow> error + bool" where
  "py_in k v =
     (case v of
        PDict kvs \<Rightarrow> Inr (dict_get kvs k \<noteq> None)
      | PList xs \<Rightarrow> Inr (PStr k \<in> set xs)
      | PStr s \<Rightarrow> Inr (sublist k s)
      | _ \<Rightarrow> Inl TypeError)"

text \<open>\<^verbatim>\<open>v[k]\<close> for a string \<open>k\<close>.\<close>

definition py_getitem :: "pyval \<Rightarrow> string \<Rightarrow> error + pyval" where
  "py_getitem v k =
     (case v of
        PDict kvs \<Rightarrow> (case dict_get kvs k of None \<Rightarrow> Inl KeyError | Some x \<Rightarrow> Inr x)
      | _ \<Rightarrow> Inl TypeError)"

text \<open>\<^verbatim>\<open>v[k] = x\<close> for a string \<open>k\<close>.\<close>

definition py_setitem :: "pyval \<Rightarrow> string \<Rightarrow> pyval \<Rightarrow> error + pyval" where
  "py_setitem v k x =
     (case v of
        PDict kvs \<Rightarrow> Inr (PDict (dict_set kvs k x))
      | _ \<Rightarrow> Inl TypeError)"

text \<open>Truth value of a Python value, as \<^verbatim>\<open>if v\<close> and \<^verbatim>\<open>and\<close> take it.\<close>

definition py_truthy :: "pyval \<Rightarrow> bool" where
  "py_truthy v =
     (case v of
        PNone \<Rightarrow> False
      | PBool b \<Rightarrow> b
      | PInt i \<Rightarrow> i \<noteq> 0
      | PFloat r \<Rightarrow> r \<noteq> 0
      | PStr s \<Rightarrow> s \<noteq> []
      | PDatetime d \<Rightarrow> True
      | PList xs \<Rightarrow> xs \<noteq> []
      | PDict kvs \<Rightarrow> kvs \<noteq> [])"

text \<open>
  An int is converted to a float before it is added to one. The conversion rounds to the
  nearest double and raises OverflowError when that lies beyond the largest double,
  \<open>2 ^ 1024 - 2 ^ 971\<close>: from the midpoint \<open>2 ^ 1024 - 2 ^ 970\<close> on, in magnitude.
\<close>

definition float_int_limit :: int where
  "float_int_limit = 2 ^ 1024 - 2 ^ 970"

text \<open>
  The right operand of \<^verbatim>\<open>float + v\<close>: a float, an int within the range of the doubles
  or a bool (an int in Python). An int beyond that range raises OverflowError and any
  other value raises TypeError.
\<close>

definition py_number :: "pyval \<Rightarrow> error + real" where
  "py_number v =
     (case v of
        PFloat r \<Rightarrow> Inr r
      | PInt i \<Rightarrow> (if float_int_limit \<le> \<bar>i\<bar> then Inl OverflowError else Inr (of_int i))
      | PBool b \<Rightarrow> Inr (if b then 1 else 0)
      | _ \<Rightarrow> Inl TypeError)"

text \<open>\<^verbatim>\<open>datetime.fromisoformat(v)\<close>: the argument must be a str.\<close>

definition py_fromisoformat :: "pyval \<Rightarrow> error + pyval" where
  "py_fromisoformat v =
     (case v of
        PStr s \<Rightarrow> and_then (fromisoformat s) (\<lambda>d. Inr (PDatetime d))
      | _ \<Rightarrow> Inl TypeError)"

subsection \<open>The persisted document\<close>

text \<open>
  The history file holds JSON text. It is modelled by the value that \<^verbatim>\<open>json.load\<close>
  reads back from it; the text of None, booleans, numbers, strings, lists and dicts with
  string keys is taken as lossless. \<^verbatim>\<open>_serialize_datetime\<close> is the \<^verbatim>\<open>default\<close> hook of
  \<^verbatim>\<open>json.dump\<close>, called on each value that JSON cannot write: here, the datetimes.
\<close>

definition serialize_datetime :: "pyval \<Rightarrow> error + string" where
  "serialize_datetime obj =
     (case obj of PDatetime d \<Rightarrow> Inr (isoformat d) | _ \<Rightarrow> Inl TypeError)"

fun json_dump :: "pyval \<Rightarrow> error + pyval"
  and json_dump_list :: "pyval list \<Rightarrow> error + pyval list"
  and json_dump_items :: "(string \<times> pyval) list \<Rightarrow> error + (string \<times> pyval) list" where
  "json_dump PNone = Inr PNone"
| "json_dump (PBool b) = Inr (PBool b)"
| "json_dump (PInt i) = Inr (PInt i)"
| "json_dump (PFloat r) = Inr (PFloat r)"
| "json_dump (PStr s) = Inr (PStr s)"
| "json_dump (PDatetime d) = and_then (serialize_datetime (PDatetime d)) (\<lambda>s. Inr (PStr s))"
| "json_dump (PList xs) = and_then (json_dump_list xs) (\<lambda>ys. Inr (PList ys))"
| "json_dump (PDict kvs) = and_then (json_dump_items kvs) (\<lambda>kws. Inr (PDict kws))"
| "json_dump_list [] = Inr []"
| "json_dump_list (x # xs) =
     and_then (json_dump x) (\<lambda>y. and_then (json_dump_list xs) (\<lambda>ys. Inr (y # ys)))"
| "json_dump_items [] = Inr []"
| "json_dump_items ((k, v) # kvs) =
     and_then (json_dump v) (\<lambda>w. and_then (json_dump_items kvs) (\<lambda>kws. Inr ((k, w) # kws)))"

text \<open>A \<^verbatim>\<open>for\<close> loop that rewrites each element in place and stops at the first raise.\<close>

fun for_each :: "(pyval \<Rightarrow> error + pyval) \<Rightarrow> pyval list \<Rightarrow> error + pyval list" where
  "for_each f [] = Inr []"
| "for_each f (x # xs) = and_then (f x) (\<lambda>y. and_then (for_each f xs) (\<lambda>ys. Inr (y # ys)))"

text \<open>The body of the loop over \<^verbatim>\<open>data["sessions"]\<close> (lines 26-27).\<close>

definition deserialize_session :: "pyval \<Rightarrow> error + pyval" where
  "deserialize_session session =
     and_then (py_in ''timestamp'' session) (\<lambda>present.
       if present then
         and_then (py_getitem session ''timestamp'') (\<lambda>v.
         and_then (py_fromisoformat v) (\<lambda>d.
           py_setitem session ''timestamp'' d))
       else Inr session)"

text \<open>
  The loop of line 25 over a value: a list gives its elements, a dict its keys and a str
  its characters (strings both, which the body leaves alone or fails on); any other
  value is not iterable.
\<close>

definition deserialize_sessions :: "pyval \<Rightarrow> error + pyval" where
  "deserialize_sessions ss =
     (case ss of
        PList xs \<Rightarrow> and_then (for_each deserialize_session xs) (\<lambda>ys. Inr (PList ys))
      | PDict kvs \<Rightarrow>
          and_then (for_each deserialize_session (map (\<lambda>kv. PStr (fst kv)) kvs)) (\<lambda>_. Inr ss)
      | PStr s \<Rightarrow>
          and_then (for_each deserialize_session (map (\<lambda>c. PStr [c]) s)) (\<lambda>_. Inr ss)
      | _ \<Rightarrow> Inl TypeError)"

text \<open>The body of the loop over \<^verbatim>\<open>data["progress"].values()\<close> (lines 30-31).\<close>

definition deserialize_progress :: "pyval \<Rightarrow> error + pyval" where
  "deserialize_progress progress =
     and_then (py_in ''last_session'' progress) (\<lambda>present.
       if present then
         and_then (py_getitem progress ''last_session'') (\<lambda>v.
           if py_truthy v then
             and_then (py_fromisoformat v) (\<lambda>d. py_setitem progress ''last_session'' d)
           else Inr progress)
       else Inr progress)"

text \<open>Only a dict has \<^verbatim>\<open>.values()\<close>.\<close>

definition deserialize_progress_values :: "pyval \<Rightarrow> error + pyval" where
  "deserialize_progress_values ps =
     (case ps of
        PDict kvs \<Rightarrow>
          and_then (for_each deserialize_progress (map snd kvs))
            (\<lambda>vs. Inr (PDict (zip (map fst kvs) vs)))
      | _ \<Rightarrow> Inl AttributeError)"

definition deserialize_datetime :: "pyval \<Rightarrow> error + pyval" where
  "deserialize_datetime data =
     and_then
       (and_then (py_in ''sessions'' data) (\<lambda>present.
          if present then
            and_then (py_getitem data ''sessions'') (\<lambda>ss.
            and_then (deserialize_sessions ss) (\<lambda>ss'.
              py_setitem data ''sessions'' ss'))
          else Inr data))
       (\<lambda>data1.
          and_then (py_in ''progress'' data1) (\<lambda>present.
            if present then
              and_then (py_getitem data1 ''progress'') (\<lambda>ps.
              and_then (deserialize_progress_values ps) (\<lambda>ps'.
                py_setitem data1 ''progress'' ps'))
            else Inr data1))"

text \<open>
  What \<^verbatim>\<open>open(Config.HISTORY_FILE, 'r')\<close> and \<^verbatim>\<open>json.load\<close> find: no file, a file
  that may not be read, a directory, text that is not JSON, or a JSON document.
\<close>

datatype file_state = Absent | Unreadable | IsDirectory | Corrupt | Document pyval

definition read_json :: "file_state \<Rightarrow> error + pyval" where
  "read_json f =
     (case f of
        Absent \<Rightarrow> Inl FileNotFoundError
      | Unreadable \<Rightarrow> Inl PermissionError
      | IsDirectory \<Rightarrow> Inl IsADirectoryError
      | Corrupt \<Rightarrow> Inl JSONDecodeError
      | Document data \<Rightarrow> Inr data)"

definition empty_history_dict :: pyval where
  "empty_history_dict = PDict [(''sessions'', PList []), (''progress'', PDict [])]"

text \<open>\<^verbatim>\<open>_load_history\<close>: the whole body stands in the \<^verbatim>\<open>try\<close>.\<close>

definition load_history :: "file_state \<Rightarrow> error + pyval" where
  "load_history f =
     (case and_then (read_json f) deserialize_datetime of
        Inl e \<Rightarrow> (if e = FileNotFoundError then Inr empty_history_dict else Inl e)
      | Inr data \<Rightarrow> Inr data)"

subsection \<open>The models\<close>

text \<open>
  The pydantic models of \<^verbatim>\<open>models.py\<close>, one record each; the field names carry the
  initial of their model, since three models share names.
\<close>

record interview_session =
  s_topic :: string
  s_timestamp :: datetime
  s_questions_asked :: int
  s_correct_answers :: int
  s_difficulty_level :: string
  s_language :: string
  s_areas_for_improvement :: "string list"
  s_mastered_subtopics :: "string list"

record user_progress =
  p_topic :: string
  p_skill_level :: string
  p_confidence_score :: real
  p_last_session :: "datetime option"
  p_language :: string
  p_recommended_topics :: "string list"
  p_mastered_subtopics :: "string list"
  p_subtopic_scores :: "(string \<times> real) list"

record question =
  q_question_text :: string
  q_correct_answer :: string
  q_explanation :: string
  q_difficulty :: string
  q_topic :: string
  q_subtopic :: string

text \<open>
  \<^verbatim>\<open>self.history\<close>: the list of dumped sessions and the dict of dumped progress records.
  A stored dict is identified with the record it was dumped from (\<^verbatim>\<open>model_dump\<close>), and
  \<^verbatim>\<open>UserProgress(**d)\<close> on a stored dict gives that record back.
\<close>

record history_state =
  sessions :: "interview_session list"
  progress :: "(string \<times> user_progress) list"

text \<open>The service object: the history in memory and the history file.\<close>

record service =
  history :: history_state
  history_file :: file_state

text \<open>The dicts that \<^verbatim>\<open>model_dump\<close> builds, fields in the order of declaration.\<close>

definition session_dict :: "interview_session \<Rightarrow> pyval" where
  "session_dict s = PDict
     [(''topic'', PStr (s_topic s)),
      (''timestamp'', PDatetime (s_timestamp s)),
      (''questions_asked'', PInt (s_questions_asked s)),
      (''correct_answers'', PInt (s_correct_answers s)),
      (''difficulty_level'', PStr (s_difficulty_level s)),
      (''language'', PStr (s_language s)),
      (''areas_for_improvement'', PList (map PStr (s_areas_for_improvement s))),
      (''mastered_subtopics'', PList (map PStr (s_mastered_subtopics s)))]"

definition progress_dict :: "user_progress \<Rightarrow> pyval" where
  "progress_dict p = PDict
     [(''topic'', PStr (p_topic p)),
      (''skill_level'', PStr (p_skill_level p)),
      (''confidence_score'', PFloat (p_confidence_score p)),
      (''last_session'', (case p_last_session p of None \<Rightarrow> PNone | Some d \<Rightarrow> PDatetime d)),
      (''language'', PStr (p_language p)),
      (''recommended_topics'', PList (map PStr (p_recommended_topics p))),
      (''mastered_subtopics'', PList (map PStr (p_mastered_subtopics p))),
      (''subtopic_scores'', PDict (map (\<lambda>kv. (fst kv, PFloat (snd kv))) (p_subtopic_scores p)))]"

definition history_dict :: "history_state \<Rightarrow> pyval" where
  "history_dict h = PDict
     [(''sessions'', PList (map session_dict (sessions h))),
      (''progress'', PDict (map (\<lambda>kp. (fst kp, progress_dict (snd kp))) (progress h)))]"

subsection \<open>The service\<close>

text \<open>
  \<^verbatim>\<open>_save_history\<close> rewrites the whole file from the history in memory. Opening the
  file for writing is taken to succeed.
\<close>

definition save_history :: "service \<Rightarrow> error + service" where
  "save_history s =
     and_then (json_dump (history_dict (history s)))
       (\<lambda>doc. Inr (s\<lparr>history_file := Document doc\<rparr>))"

definition save_session :: "service \<Rightarrow> interview_session \<Rightarrow> error + service" where
  "save_session s session =
     save_history (s\<lparr>history := (history s)\<lparr>sessions := sessions (history s) @ [session]\<rparr>\<rparr>)"

text \<open>The key \<^verbatim>\<open>f"{topic}_{language}"\<close>.\<close>

definition progress_key :: "string \<Rightarrow> string \<Rightarrow> string" where
  "progress_key topic language = topic @ ''_'' @ language"

definition update_progress :: "service \<Rightarrow> user_progress \<Rightarrow> error + service" where
  "update_progress s p =
     save_history
       (s\<lparr>history := (history s)
          \<lparr>progress := dict_set (progress (history s)) (progress_key (p_topic p) (p_language p)) p\<rparr>\<rparr>)"

definition get_topic_progress :: "service \<Rightarrow> string \<Rightarrow> string \<Rightarrow> user_progress option" where
  "get_topic_progress s topic language =
     dict_get (progress (history s)) (progress_key topic language)"

text \<open>
  Lines 120-128 of \<^verbatim>\<open>evaluate_answer\<close>, on the record read from the store and the number
  \<open>r\<close> that the oracle gave for the subtopic: the new score is the mean of the stored one
  (0.0 when the subtopic has none) and \<open>r\<close>; from 0.85 on the subtopic is appended to the
  mastered ones unless it is there already.
\<close>

definition grade_subtopic :: "user_progress \<Rightarrow> string \<Rightarrow> real \<Rightarrow> user_progress" where
  "grade_subtopic progress0 subtopic r =
     (let current_score = dict_get_default (p_subtopic_scores progress0) subtopic 0;
          new_score = (current_score + r) / 2;
          progress1 = progress0
            \<lparr>p_subtopic_scores := dict_set (p_subtopic_scores progress0) subtopic new_score\<rparr>
      in if new_score \<ge> 0.85 then
           (if subtopic \<notin> set (p_mastered_subtopics progress1)
            then progress1\<lparr>p_mastered_subtopics := p_mastered_subtopics progress1 @ [subtopic]\<rparr>
            else progress1)
         else progress1)"

text \<open>
  \<^verbatim>\<open>evaluate_answer\<close> from line 115 on: \<open>evaluation\<close> is the parsed reply of the oracle.
  Without a progress record for the topic and language nothing is updated. With one,
  \<^verbatim>\<open>evaluation["subtopic_score"]\<close> raises KeyError when the field is missing and the sum
  raises TypeError when it is no number and OverflowError when it is an int beyond the
  doubles, all before anything is written. The call
  returns the evaluation and leaves the updated service behind.
\<close>

definition evaluate_answer ::
  "service \<Rightarrow> question \<Rightarrow> string \<Rightarrow> string \<Rightarrow> pyval \<Rightarrow> error + (service \<times> pyval)" where
  "evaluate_answer s question user_answer language evaluation =
     (case get_topic_progress s (q_topic question) language of
        None \<Rightarrow> Inr (s, evaluation)
      | Some progress0 \<Rightarrow>
          and_then (py_getitem evaluation ''subtopic_score'') (\<lambda>v.
          and_then (py_number v) (\<lambda>r.
          and_then (update_progress s (grade_subtopic progress0 (q_subtopic question) r)) (\<lambda>s'.
            Inr (s', evaluation)))))"

text \<open>A run of answers, each graded on the service that the one before left.\<close>

fun evaluate_answers ::
  "service \<Rightarrow> (question \<times> string \<times> string \<times> pyval) list \<Rightarrow> error + service" where
  "evaluate_answers s [] = Inr s"
| "evaluate_answers s ((question, user_answer, language, evaluation) # rest) =
     and_then (evaluate_answer s question user_answer language evaluation)
       (\<lambda>r. evaluate_answers (fst r) rest)"

text \<open>A run of \<^verbatim>\<open>save_session\<close> calls.\<close>

fun save_sessions :: "service \<Rightarrow> interview_session list \<Rightarrow> error + service" where
  "save_sessions s [] = Inr s"
| "save_sessions s (session # rest) = and_then (save_session s session) (\<lambda>s'. save_sessions s' rest)"

text \<open>
  \<^verbatim>\<open>analyze_performance\<close>: \<open>now\<close> is the clock and \<open>analysis\<close> the parsed reply of the
  oracle. \<^verbatim>\<open>UserProgress(topic=..., ..., **analysis)\<close> raises TypeError when \<open>analysis\<close>
  is no dict or repeats one of the five keywords written out in the call. The three
  fields left to the oracle are then read by pydantic, whose rules are the library's: the
  reading is the parameter \<open>validate\<close>. The five written-out arguments already have the
  types of their fields. The method does not write to the history.
\<close>

type_synonym validator = "(string \<times> pyval) list \<Rightarrow> error + (string \<times> real \<times> string list)"

definition explicit_keywords :: "string list" where
  "explicit_keywords =
     [''topic'', ''last_session'', ''language'', ''mastered_subtopics'', ''subtopic_scores'']"

definition analyze_performance ::
  "validator \<Rightarrow> service \<Rightarrow> string \<Rightarrow> interview_session \<Rightarrow> string \<Rightarrow> datetime \<Rightarrow> pyval
     \<Rightarrow> error + user_progress" where
  "analyze_performance validate s topic session_data language now analysis =
     (let existing_progress = get_topic_progress s topic language;
          mastered_subtopics =
            (case existing_progress of None \<Rightarrow> [] | Some e \<Rightarrow> p_mastered_subtopics e);
          subtopic_scores =
            (case existing_progress of None \<Rightarrow> [] | Some e \<Rightarrow> p_subtopic_scores e)
      in case analysis of
           PDict kw \<Rightarrow>
             if list_ex (\<lambda>k. k \<in> set explicit_keywords) (map fst kw) then Inl TypeError
             else and_then (validate kw) (\<lambda>fields.
               Inr \<lparr>p_topic = topic,
                    p_skill_level = fst fields,
                    p_confidence_score = fst (snd fields),
                    p_last_session = Some now,
                    p_language = language,
                    p_recommended_topics = snd (snd fields),
                    p_mastered_subtopics = mastered_subtopics,
                    p_subtopic_scores = subtopic_scores\<rparr>)
         | _ \<Rightarrow> Inl TypeError)"

text \<open>
  One validator, for concrete runs: a str, a number and a list of str, each required
  and none coerced.
\<close>

fun str_items :: "pyval list \<Rightarrow> error + string list" where
  "str_items [] = Inr []"
| "str_items (PStr x # xs) = and_then (str_items xs) (\<lambda>ys. Inr (x # ys))"
| "str_items (_ # xs) = Inl ValidationError"

definition validate_strict :: validator where
  "validate_strict kw =
     (case (dict_get kw ''skill_level'', dict_get kw ''confidence_score'',
            dict_get kw ''recommended_topics'') of
        (Some (PStr level), Some (PFloat c), Some (PList ts)) \<Rightarrow>
          and_then (str_items ts) (\<lambda>topics. Inr (level, c, topics))
      | _ \<Rightarrow> Inl ValidationError)"

subsection \<open>The prompt of \<^verbatim>\<open>generate_question\<close>\<close>

definition get_language_prompt :: "string \<Rightarrow> string" where
  "get_language_prompt language =
     (if language = ''RU'' then ''Answer in Russian language.'' else ''Answer in English language.'')"

text \<open>The loop of lines 54-55, from the text built so far.\<close>

fun mastered_lines :: "string \<Rightarrow> string list \<Rightarrow> string" where
  "mastered_lines text [] = text"
| "mastered_lines text (subtopic # rest) =
     mastered_lines (text @ ''- '' @ subtopic @ ''\<newline>'') rest"

text \<open>The loop of lines 61-62, from the text built so far and the number of the next question.\<close>

fun previous_lines :: "string \<Rightarrow> nat \<Rightarrow> question list \<Rightarrow> string" where
  "previous_lines text i [] = text"
| "previous_lines text i (q # rest) =
     previous_lines
       (text @ str_nat i @ ''. Question: '' @ q_question_text q @ ''\<newline>   Topic: '' @ q_topic q @
        ''\<newline>   Subtopic: '' @ q_subtopic q @ ''\<newline>'')
       (Suc i) rest"

text \<open>
  Lines 47-84 of \<^verbatim>\<open>generate_question\<close>: the prompt sent to the oracle.
  \<open>previous_questions\<close> is \<open>None\<close> when the argument is left out.
\<close>

definition generate_question_prompt ::
  "service \<Rightarrow> string \<Rightarrow> string \<Rightarrow> string \<Rightarrow> question list option \<Rightarrow> string" where
  "generate_question_prompt s topic difficulty language previous_questions =
     (let lang_prompt = get_language_prompt language;
          progress0 = get_topic_progress s topic language;
          mastered_subtopics_text =
            (case progress0 of
               None \<Rightarrow> []
             | Some p \<Rightarrow>
                 if p_mastered_subtopics p \<noteq> []
                 then mastered_lines ''\<newline>Mastered subtopics (avoid these):\<newline>'' (p_mastered_subtopics p)
                 else []);
          previous_questions_text =
            (case previous_questions of
               None \<Rightarrow> []
             | Some qs \<Rightarrow>
                 if qs \<noteq> [] \<and> length qs > 0
                 then previous_lines ''\<newline>Previous questions in this session:\<newline>'' 1 qs
                 else [])
      in
     lang_prompt @
     ''\<newline>'' @
     ''        Generate an interview question for a Data Scientist position with the following criteria:\<newline>'' @
     ''        Topic: '' @
     topic @
     ''\<newline>'' @
     ''        Difficulty: '' @
     difficulty @
     ''\<newline>'' @
     ''        \<newline>'' @
     ''        '' @
     mastered_subtopics_text @
     ''\<newline>'' @
     ''        '' @
     previous_questions_text @
     ''\<newline>'' @
     ''        Important requirements:\<newline>'' @
     ''        1. The question must be significantly different from any previous questions shown above\<newline>'' @
     ''        2. If previous questions covered certain subtopics, focus on different subtopics\<newline>'' @
     ''        3. DO NOT generate questions about mastered subtopics listed above\<newline>'' @
     ''        4. The question should be unique in both content and the specific skills it tests\<newline>'' @
     ''        5. Choose a subtopic that the student hasn't mastered yet\<newline>'' @
     ''        \<newline>'' @
     ''        Format the response as a JSON with the following fields:\<newline>'' @
     ''        - question_text\<newline>'' @
     ''        - correct_answer\<newline>'' @
     ''        - explanation\<newline>'' @
     ''        - difficulty\<newline>'' @
     ''        - topic\<newline>'' @
     ''        - subtopic'')"

subsection \<open>Invariants of the store\<close>

text \<open>
  \<^verbatim>\<open>update_progress\<close> stores every record under the key of its own topic and language;
  a store built by the service has all its records there.
\<close>

definition stored_under_own_key :: "service \<Rightarrow> bool" where
  "stored_under_own_key s =
     list_all (\<lambda>kp. fst kp = progress_key (p_topic (snd kp)) (p_language (snd kp)))
       (progress (history s))"

text \<open>Every score of every stored record lies in [0, 1].\<close>

definition scores_in_range :: "service \<Rightarrow> bool" where
  "scores_in_range s =
     list_all (\<lambda>kp. list_all (\<lambda>kv. 0 \<le> snd kv \<and> snd kv \<le> 1) (p_subtopic_scores (snd kp)))
       (progress (history s))"

text \<open>
  Every datetime object is a valid one; for a history this says so of the timestamps of
  its sessions and of the \<open>last_session\<close> of its progress records.
\<close>

definition valid_timestamps :: "history_state \<Rightarrow> bool" where
  "valid_timestamps h =
     (list_all (\<lambda>x. valid_datetime (s_timestamp x)) (sessions h) \<and>
      list_all (\<lambda>kp. case p_last_session (snd kp) of None \<Rightarrow> True | Some d \<Rightarrow> valid_datetime d)
        (progress h))"

subsection \<open>Values of the test suite\<close>

text \<open>
  The service that \<^verbatim>\<open>setUp\<close> builds (no history file yet), and the progress record,
  question and session of \<^verbatim>\<open>test_service.py\<close>, with one reading of the clock.
\<close>

definition test_now :: datetime where
  "test_now = \<lparr>year = 2024, month = 2, day = 29, hour = 9, minute = 5, second = 7, microsecond = 1500\<rparr>"

definition new_service :: service where
  "new_service = \<lparr>history = \<lparr>sessions = [], progress = []\<rparr>, history_file = Absent\<rparr>"

definition test_progress :: user_progress where
  "test_progress =
     \<lparr>p_topic = ''Python'', p_skill_level = ''Intermediate'', p_confidence_score = 0.75,
      p_last_session = Some test_now, p_language = ''EN'',
      p_recommended_topics = [''Advanced Topics''],
      p_mastered_subtopics = [''List Comprehension'', ''Basic Functions''],
      p_subtopic_scores =
        [(''List Comprehension'', 0.9), (''Basic Functions'', 0.95), (''Decorators'', 0.6)]\<rparr>"

definition test_question :: question where
  "test_question =
     \<lparr>q_question_text = ''What are decorators in Python?'',
      q_correct_answer = ''Decorators are functions that modify other functions'',
      q_explanation = ''Decorators are a way to modify functions'',
      q_difficulty = ''Intermediate'', q_topic = ''Python'', q_subtopic = ''Decorators''\<rparr>"

definition test_session :: interview_session where
  "test_session =
     \<lparr>s_topic = ''Python'', s_timestamp = test_now, s_questions_asked = 5, s_correct_answers = 3,
      s_difficulty_level = ''Intermediate'', s_language = ''EN'',
      s_areas_for_improvement = [''List comprehension'', ''Decorators''],
      s_mastered_subtopics = []\<rparr>"

text \<open>The service of \<^verbatim>\<open>test_mastered_subtopics\<close> after its first \<^verbatim>\<open>update_progress\<close>.\<close>

definition test_service :: service where
  "test_service =
     \<lparr>history = \<lparr>sessions = [], progress = [(''Python_EN'', test_progress)]\<rparr>,
      history_file = Absent\<rparr>"

text \<open>An answer, and a reply of the oracle that gives the subtopic the score \<open>r\<close>.\<close>

definition test_answer :: string where
  "test_answer = ''Decorators are functions that modify other functions or classes''"

definition test_evaluation :: "real \<Rightarrow> pyval" where
  "test_evaluation r = PDict
     [(''is_correct'', PBool True), (''explanation'', PStr ''Right.''),
      (''improvement_tips'', PStr ''Mention functools.wraps.''), (''subtopic_score'', PFloat r)]"

text \<open>A service whose record is one good answer away from mastering Decorators.\<close>

definition near_mastery_service :: service where
  "near_mastery_service =
     \<lparr>history = \<lparr>sessions = [],
        progress = [(''Python_EN'', test_progress\<lparr>p_subtopic_scores := [(''Decorators'', 0.8)]\<rparr>)]\<rparr>,
      history_file = Absent\<rparr>"

text \<open>A reply of the oracle to \<^verbatim>\<open>analyze_performance\<close>.\<close>

definition test_analysis :: pyval where
  "test_analysis = PDict
     [(''skill_level'', PStr ''Advanced''), (''confidence_score'', PFloat 0.9),
      (''recommended_topics'', PList [PStr ''Generators'', PStr ''Context Managers''])]"

text \<open>A service with one session and one progress record in its history.\<close>

definition test_history_service :: service where
  "test_history_service =
     \<lparr>history = \<lparr>sessions = [test_session], progress = [(''Python_EN'', test_progress)]\<rparr>,
      history_file = Absent\<rparr>"

section \<open>Basic facts\<close>

text \<open>The equation of \<open>str_nat\<close> is unfolded by hand only.\<close>

declare str_nat.simps [simp del]


lemma and_then_Inr [simp]: "and_then (Inr x) f = f x"
  by (simp add: and_then_def)

lemma and_then_Inl [simp]: "and_then (Inl e) f = Inl e"
  by (simp add: and_then_def)

lemma and_then_eq_Inr: "and_then r f = Inr y \<longleftrightarrow> (\<exists>x. r = Inr x \<and> f x = Inr y)"
  by (cases r) simp_all

lemma json_dump_strs: "json_dump_list (map PStr xs) = Inr (map PStr xs)"
  by (induction xs) simp_all

lemma json_dump_scores:
  "json_dump_items (map (\<lambda>kv. (fst kv, PFloat (snd kv))) xs) = Inr (map (\<lambda>kv. (fst kv, PFloat (snd kv))) xs)"
  by (induction xs) simp_all

lemma json_dump_session: "\<exists>doc. json_dump (session_dict x) = Inr doc"
  by (simp add: session_dict_def serialize_datetime_def json_dump_strs)

lemma json_dump_progress: "\<exists>doc. json_dump (progress_dict p) = Inr doc"
  by (cases "p_last_session p")
     (simp_all add: progress_dict_def serialize_datetime_def json_dump_strs json_dump_scores)

lemma json_dump_session_list: "\<exists>docs. json_dump_list (map session_dict xs) = Inr docs"
proof (induction xs)
  case Nil
  show ?case by simp
next
  case (Cons x xs)
  obtain d where d: "json_dump (session_dict x) = Inr d"
    using json_dump_session by blast
  from Cons obtain ds where "json_dump_list (map session_dict xs) = Inr ds" by blast
  with d show ?case by simp
qed

lemma json_dump_progress_items:
  "\<exists>docs. json_dump_items (map (\<lambda>kp. (fst kp, progress_dict (snd kp))) xs) = Inr docs"
proof (induction xs)
  case Nil
  show ?case by simp
next
  case (Cons x xs)
  obtain d where d: "json_dump (progress_dict (snd x)) = Inr d"
    using json_dump_progress by blast
  from Cons obtain ds
    where "json_dump_items (map (\<lambda>kp. (fst kp, progress_dict (snd kp))) xs) = Inr ds" by blast
  with d show ?case by (cases x) simp
qed

lemma json_dump_history: "\<exists>doc. json_dump (history_dict h) = Inr doc"
proof -
  obtain a where a: "json_dump_list (map session_dict (sessions h)) = Inr a"
    using json_dump_session_list by blast
  obtain b where b: "json_dump_items (map (\<lambda>kp. (fst kp, progress_dict (snd kp))) (progress h)) = Inr b"
    using json_dump_progress_items by blast
  show ?thesis by (simp add: history_dict_def a b)
qed

lemma save_history_ok:
  "\<exists>doc. save_history s = Inr (s\<lparr>history_file := Document doc\<rparr>)"
  using json_dump_history [of "history s"] by (auto simp: save_history_def)

lemma save_session_ok:
  "\<exists>doc. save_session s x =
     Inr (s\<lparr>history := (history s)\<lparr>sessions := sessions (history s) @ [x]\<rparr>, history_file := Document doc\<rparr>)"
  using save_history_ok [of "s\<lparr>history := (history s)\<lparr>sessions := sessions (history s) @ [x]\<rparr>\<rparr>"]
  by (simp add: save_session_def)

lemma update_progress_ok:
  "\<exists>doc. update_progress s p =
     Inr (s\<lparr>history := (history s)
            \<lparr>progress := dict_set (progress (history s)) (progress_key (p_topic p) (p_language p)) p\<rparr>,
          history_file := Document doc\<rparr>)"
  using save_history_ok [of "s\<lparr>history := (history s)
          \<lparr>progress := dict_set (progress (history s)) (progress_key (p_topic p) (p_language p)) p\<rparr>\<rparr>"]
  by (simp add: update_progress_def)

lemma update_progress_history:
  "update_progress s p = Inr s' \<Longrightarrow>
   history s' = (history s)
     \<lparr>progress := dict_set (progress (history s)) (progress_key (p_topic p) (p_language p)) p\<rparr>"
  using update_progress_ok [of s p] by auto

lemma save_session_history:
  "save_session s x = Inr s' \<Longrightarrow>
   history s' = (history s)\<lparr>sessions := sessions (history s) @ [x]\<rparr>"
  using save_session_ok [of s x] by auto

lemma dict_get_set_same [simp]: "dict_get (dict_set d k v) k = Some v"
  by (induction d) auto

lemma dict_get_set_other [simp]: "k' \<noteq> k \<Longrightarrow> dict_get (dict_set d k v) k' = dict_get d k'"
  by (induction d) auto

lemma keys_dict_set:
  "map fst (dict_set d k v) = (if k \<in> set (map fst d) then map fst d else map fst d @ [k])"
  by (induction d) (force+)

lemma distinct_dict_set: "distinct (map fst d) \<Longrightarrow> distinct (map fst (dict_set d k v))"
  by (simp add: keys_dict_set)

lemma entries_for_absent: "k \<notin> set (map fst d) \<Longrightarrow> entries_for d k = []"
  by (induction d) (auto simp: entries_for_def)

lemma entries_for_dict_set:
  "distinct (map fst d) \<Longrightarrow> entries_for (dict_set d k v) k = [v]"
proof (induction d)
  case Nil
  show ?case by (simp add: entries_for_def)
next
  case (Cons a d)
  show ?case
  proof (cases "fst a = k")
    case True
    with Cons.prems have "k \<notin> set (map fst d)" by auto
    then have "entries_for d k = []" by (rule entries_for_absent)
    with True show ?thesis by (cases a) (simp add: entries_for_def)
  next
    case False
    with Cons show ?thesis by (cases a) (simp add: entries_for_def)
  qed
qed

lemma entries_for_dict_set_other:
  "k' \<noteq> k \<Longrightarrow> entries_for (dict_set d k v) k' = entries_for d k'"
  by (induction d) (auto simp: entries_for_def)

lemma save_sessions_ok:
  "\<exists>s'. save_sessions s xs = Inr s' \<and> sessions (history s') = sessions (history s) @ xs
        \<and> progress (history s') = progress (history s)"
proof (induction xs arbitrary: s)
  case Nil
  show ?case by simp
next
  case (Cons x xs)
  obtain doc where 1: "save_session s x =
     Inr (s\<lparr>history := (history s)\<lparr>sessions := sessions (history s) @ [x]\<rparr>, history_file := Document doc\<rparr>)"
    using save_session_ok by blast
  show ?case using Cons [of "s\<lparr>history := (history s)\<lparr>sessions := sessions (history s) @ [x]\<rparr>, history_file := Document doc\<rparr>"] 1
    by auto
qed


lemma save_history_result:
  "save_history s = Inr s' \<Longrightarrow>
   history s' = history s \<and> json_dump (history_dict (history s')) = Inr (projr (json_dump (history_dict (history s')))) \<and>
   history_file s' = Document (projr (json_dump (history_dict (history s'))))"
  using json_dump_history [of "history s"] by (auto simp: save_history_def)

lemma grade_subtopic_topic [simp]: "p_topic (grade_subtopic p sub r) = p_topic p"
  by (simp add: grade_subtopic_def Let_def)

lemma grade_subtopic_language [simp]: "p_language (grade_subtopic p sub r) = p_language p"
  by (simp add: grade_subtopic_def Let_def)

lemma grade_subtopic_scores:
  "p_subtopic_scores (grade_subtopic p sub r) =
     dict_set (p_subtopic_scores p) sub ((dict_get_default (p_subtopic_scores p) sub 0 + r) / 2)"
  by (simp add: grade_subtopic_def Let_def)

lemma grade_subtopic_mastered:
  "p_mastered_subtopics (grade_subtopic p sub r) =
     (if 0.85 \<le> (dict_get_default (p_subtopic_scores p) sub 0 + r) / 2 \<and> sub \<notin> set (p_mastered_subtopics p)
      then p_mastered_subtopics p @ [sub] else p_mastered_subtopics p)"
  by (simp add: grade_subtopic_def Let_def)

lemma evaluate_answer_none:
  "get_topic_progress s (q_topic q) language = None \<Longrightarrow>
   evaluate_answer s q ua language evaluation = Inr (s, evaluation)"
  by (simp add: evaluate_answer_def)

lemma evaluate_answer_some:
  assumes "get_topic_progress s (q_topic q) language = Some p"
    and "py_getitem evaluation ''subtopic_score'' = Inr v" and "py_number v = Inr r"
  shows "\<exists>s'. evaluate_answer s q ua language evaluation = Inr (s', evaluation) \<and>
           update_progress s (grade_subtopic p (q_subtopic q) r) = Inr s'"
  using assms update_progress_ok [of s "grade_subtopic p (q_subtopic q) r"]
  by (auto simp: evaluate_answer_def)

lemma evaluate_answer_cases:
  assumes "evaluate_answer s q ua language evaluation = Inr res"
  shows "(get_topic_progress s (q_topic q) language = None \<and> res = (s, evaluation)) \<or>
         (\<exists>p v r. get_topic_progress s (q_topic q) language = Some p \<and>
            py_getitem evaluation ''subtopic_score'' = Inr v \<and> py_number v = Inr r \<and>
            update_progress s (grade_subtopic p (q_subtopic q) r) = Inr (fst res) \<and> snd res = evaluation)"
  using assms
  by (auto simp: evaluate_answer_def and_then_eq_Inr split: option.splits)

lemma dict_get_default_set_same: "dict_get_default (dict_set d k v) k dflt = v"
  by (simp add: dict_get_default_def)

lemma own_key_lookup:
  "list_all (\<lambda>kp. fst kp = progress_key (p_topic (snd kp)) (p_language (snd kp))) d \<Longrightarrow>
   dict_get d k = Some p \<Longrightarrow> progress_key (p_topic p) (p_language p) = k"
  by (induction d) (auto split: if_splits)

lemma list_all_dict_set: "list_all P d \<Longrightarrow> P (k, v) \<Longrightarrow> list_all P (dict_set d k v)"
  by (induction d) auto

lemma update_progress_own_key:
  assumes "stored_under_own_key s" and "update_progress s p = Inr s'"
  shows "stored_under_own_key s'"
  using assms(1) update_progress_history [OF assms(2)]
  by (simp add: stored_under_own_key_def list_all_dict_set)

lemma evaluate_answer_own_key:
  assumes "stored_under_own_key s" and "evaluate_answer s q ua language evaluation = Inr res"
  shows "stored_under_own_key (fst res)"
  using evaluate_answer_cases [OF assms(2)] assms(1) update_progress_own_key by auto

lemma grade_subtopic_subset:
  "set (p_mastered_subtopics p) \<subseteq> set (p_mastered_subtopics (grade_subtopic p sub r))"
  by (auto simp: grade_subtopic_mastered)

lemma grade_subtopic_distinct:
  "distinct (p_mastered_subtopics p) \<Longrightarrow> distinct (p_mastered_subtopics (grade_subtopic p sub r))"
  by (auto simp: grade_subtopic_mastered)

lemma grade_subtopic_reached:
  "0.85 \<le> dict_get_default (p_subtopic_scores (grade_subtopic p sub r)) sub 0 \<Longrightarrow>
   sub \<in> set (p_mastered_subtopics (grade_subtopic p sub r))"
  by (auto simp: grade_subtopic_mastered grade_subtopic_scores dict_get_default_set_same)

text \<open>One graded answer, seen from any topic and language.\<close>

lemma evaluate_answer_step:
  assumes inv: "stored_under_own_key s"
    and ev: "evaluate_answer s q ua language evaluation = Inr res"
    and rec: "get_topic_progress s topic lang = Some p"
  shows "\<exists>p'. get_topic_progress (fst res) topic lang = Some p' \<and>
           set (p_mastered_subtopics p) \<subseteq> set (p_mastered_subtopics p') \<and>
           (distinct (p_mastered_subtopics p) \<longrightarrow> distinct (p_mastered_subtopics p'))"
proof -
  from evaluate_answer_cases [OF ev] show ?thesis
  proof (elim disjE conjE exE)
    assume "res = (s, evaluation)"
    with rec show ?thesis by simp
  next
    fix p0 v r
    assume p0: "get_topic_progress s (q_topic q) language = Some p0"
      and up: "update_progress s (grade_subtopic p0 (q_subtopic q) r) = Inr (fst res)"
    have key: "progress_key (p_topic p0) (p_language p0) = progress_key (q_topic q) language"
      using inv p0 own_key_lookup unfolding stored_under_own_key_def get_topic_progress_def by blast
    have h: "progress (history (fst res)) =
        dict_set (progress (history s)) (progress_key (q_topic q) language)
          (grade_subtopic p0 (q_subtopic q) r)"
      using update_progress_history [OF up] key by simp
    show ?thesis
    proof (cases "progress_key topic lang = progress_key (q_topic q) language")
      case True
      with rec p0 have "p = p0" by (simp add: get_topic_progress_def)
      moreover have "get_topic_progress (fst res) topic lang = Some (grade_subtopic p0 (q_subtopic q) r)"
        using True h by (simp add: get_topic_progress_def)
      ultimately show ?thesis
        using grade_subtopic_subset grade_subtopic_distinct by blast
    next
      case False
      then have "get_topic_progress (fst res) topic lang = Some p"
        using h rec by (simp add: get_topic_progress_def)
      then show ?thesis by simp
    qed
  qed
qed

lemma evaluate_answers_run:
  assumes "stored_under_own_key s" and "evaluate_answers s answers = Inr s'"
    and "get_topic_progress s topic lang = Some p"
  shows "\<exists>p'. get_topic_progress s' topic lang = Some p' \<and>
           set (p_mastered_subtopics p) \<subseteq> set (p_mastered_subtopics p') \<and>
           (distinct (p_mastered_subtopics p) \<longrightarrow> distinct (p_mastered_subtopics p'))"
  using assms
proof (induction answers arbitrary: s p)
  case Nil
  then show ?case by simp
next
  case (Cons a answers)
  obtain q ua language evaluation where a: "a = (q, ua, language, evaluation)"
    by (cases a) auto
  from Cons.prems(2) a obtain res
    where ev: "evaluate_answer s q ua language evaluation = Inr res"
      and rest: "evaluate_answers (fst res) answers = Inr s'"
    by (auto simp: and_then_eq_Inr)
  from evaluate_answer_step [OF Cons.prems(1) ev Cons.prems(3)] obtain p1
    where p1: "get_topic_progress (fst res) topic lang = Some p1"
      and sub1: "set (p_mastered_subtopics p) \<subseteq> set (p_mastered_subtopics p1)"
      and dis1: "distinct (p_mastered_subtopics p) \<longrightarrow> distinct (p_mastered_subtopics p1)"
    by blast
  have inv1: "stored_under_own_key (fst res)"
    using evaluate_answer_own_key [OF Cons.prems(1) ev] .
  from Cons.IH [OF inv1 rest p1] obtain p'
    where "get_topic_progress s' topic lang = Some p'"
      and "set (p_mastered_subtopics p1) \<subseteq> set (p_mastered_subtopics p')"
      and "distinct (p_mastered_subtopics p1) \<longrightarrow> distinct (p_mastered_subtopics p')"
    by blast
  with sub1 dis1 show ?case by blast
qed


lemma test_evaluation_score:
  "py_getitem (test_evaluation r) ''subtopic_score'' = Inr (PFloat r)" "py_number (PFloat r) = Inr r"
  by (simp_all add: test_evaluation_def py_getitem_def py_number_def)

lemma test_service_record:
  "get_topic_progress test_service ''Python'' ''EN'' = Some test_progress"
  by (simp add: test_service_def get_topic_progress_def progress_key_def)

lemma list_all_dict_get:
  "list_all P d \<Longrightarrow> dict_get d k = Some v \<Longrightarrow> P (k, v)"
  by (induction d) (auto split: if_splits)

lemma dict_get_default_range:
  assumes "list_all (\<lambda>kv. 0 \<le> snd kv \<and> snd kv \<le> (1::real)) d"
  shows "0 \<le> dict_get_default d k 0 \<and> dict_get_default d k 0 \<le> 1"
proof (cases "dict_get d k")
  case None
  then show ?thesis by (simp add: dict_get_default_def)
next
  case (Some v)
  with list_all_dict_get [OF assms Some] show ?thesis by (simp add: dict_get_default_def)
qed

lemma grade_subtopic_range:
  assumes "list_all (\<lambda>kv. 0 \<le> snd kv \<and> snd kv \<le> (1::real)) (p_subtopic_scores p)"
    and "0 \<le> r" and "r \<le> 1"
  shows "list_all (\<lambda>kv. 0 \<le> snd kv \<and> snd kv \<le> 1) (p_subtopic_scores (grade_subtopic p sub r))"
proof -
  from dict_get_default_range [OF assms(1), of sub] assms(2,3)
  have "0 \<le> (dict_get_default (p_subtopic_scores p) sub 0 + r) / 2 \<and>
        (dict_get_default (p_subtopic_scores p) sub 0 + r) / 2 \<le> 1"
    by simp
  with assms(1) show ?thesis
    by (simp add: grade_subtopic_scores list_all_dict_set)
qed

text \<open>What a graded answer leaves in the store.\<close>

lemma evaluate_answer_stored:
  assumes rec: "get_topic_progress s (q_topic q) language = Some p"
    and own: "progress_key (p_topic p) (p_language p) = progress_key (q_topic q) language"
    and field: "py_getitem evaluation ''subtopic_score'' = Inr v"
    and num: "py_number v = Inr r"
  shows "\<exists>s'. evaluate_answer s q user_answer language evaluation = Inr (s', evaluation) \<and>
           get_topic_progress s' (q_topic q) language = Some (grade_subtopic p (q_subtopic q) r) \<and>
           history_file s' = Document (projr (json_dump (history_dict (history s')))) \<and>
           json_dump (history_dict (history s')) = Inr (projr (json_dump (history_dict (history s'))))"
proof -
  let ?p' = "grade_subtopic p (q_subtopic q) r"
  obtain s' where ev: "evaluate_answer s q user_answer language evaluation = Inr (s', evaluation)"
    and up: "update_progress s ?p' = Inr s'"
    using evaluate_answer_some [OF rec field num] by blast
  have g: "get_topic_progress s' (q_topic q) language = Some ?p'"
    using update_progress_history [OF up] own by (simp add: get_topic_progress_def)
  have written: "history_file s' = Document (projr (json_dump (history_dict (history s'))))"
     "json_dump (history_dict (history s')) = Inr (projr (json_dump (history_dict (history s'))))"
    using up save_history_result unfolding update_progress_def by blast+
  show ?thesis
    by (rule exI [of _ s']) (intro conjI ev g written)
qed

lemma and_then_eq_Inl: "and_then r f = Inl e \<longleftrightarrow> r = Inl e \<or> (\<exists>x. r = Inr x \<and> f x = Inl e)"
  by (cases r) simp_all


text \<open>No step of \<^verbatim>\<open>_deserialize_datetime\<close> raises FileNotFoundError.\<close>

lemma py_in_error: "py_in k v = Inl e \<Longrightarrow> e = TypeError"
  by (auto simp: py_in_def split: pyval.splits)

lemma py_getitem_error: "py_getitem v k = Inl e \<Longrightarrow> e = KeyError \<or> e = TypeError"
  by (auto simp: py_getitem_def split: pyval.splits option.splits)

lemma py_setitem_error: "py_setitem v k x = Inl e \<Longrightarrow> e = TypeError"
  by (auto simp: py_setitem_def split: pyval.splits)

lemma digits_at_error: "digits_at s i n = Inl e \<Longrightarrow> e = ValueError"
  by (auto simp: digits_at_def split: option.splits)

lemma make_datetime_error: "make_datetime y m d H M S us = Inl e \<Longrightarrow> e = ValueError"
  by (auto simp: make_datetime_def Let_def split: if_splits)

lemma fromisoformat_error: "fromisoformat s = Inl e \<Longrightarrow> e = ValueError"
  unfolding fromisoformat_def
  by (auto simp: and_then_eq_Inl split: if_splits dest: digits_at_error make_datetime_error)

lemma py_fromisoformat_error: "py_fromisoformat v = Inl e \<Longrightarrow> e = TypeError \<or> e = ValueError"
  by (auto simp: py_fromisoformat_def and_then_eq_Inl split: pyval.splits dest: fromisoformat_error)

lemma for_each_error:
  assumes "\<And>x. f x \<noteq> Inl FileNotFoundError"
  shows "for_each f xs \<noteq> Inl FileNotFoundError"
proof (induction xs)
  case Nil
  show ?case by simp
next
  case (Cons x xs)
  with assms [of x] show ?case by (auto simp: and_then_eq_Inl)
qed

lemma deserialize_session_error: "deserialize_session x \<noteq> Inl FileNotFoundError"
  unfolding deserialize_session_def
  by (auto simp: and_then_eq_Inl split: if_splits
      dest: py_in_error py_getitem_error py_setitem_error py_fromisoformat_error)

lemma deserialize_progress_error: "deserialize_progress x \<noteq> Inl FileNotFoundError"
  unfolding deserialize_progress_def
  by (auto simp: and_then_eq_Inl split: if_splits
      dest: py_in_error py_getitem_error py_setitem_error py_fromisoformat_error)

lemma deserialize_sessions_error: "deserialize_sessions x \<noteq> Inl FileNotFoundError"
  unfolding deserialize_sessions_def
  by (auto simp: and_then_eq_Inl for_each_error [OF deserialize_session_error] split: pyval.splits)

lemma deserialize_progress_values_error:
  "deserialize_progress_values x \<noteq> Inl FileNotFoundError"
  unfolding deserialize_progress_values_def
  by (auto simp: and_then_eq_Inl for_each_error [OF deserialize_progress_error] split: pyval.splits)

lemma deserialize_datetime_error: "deserialize_datetime data \<noteq> Inl FileNotFoundError"
  unfolding deserialize_datetime_def
  by (auto simp: and_then_eq_Inl deserialize_sessions_error deserialize_progress_values_error
      split: if_splits dest: py_in_error py_getitem_error py_setitem_error)

text \<open>Parts of the prompt.\<close>


lemma sublist_in_right: "sublist x b \<Longrightarrow> sublist x (a @ b)"
  by (auto simp: sublist_def) (metis append.assoc)

lemma sublist_in_left: "sublist x a \<Longrightarrow> sublist x (a @ b)"
  by (auto simp: sublist_def) (metis append.assoc)

lemma sublist_of_part: "sublist x y \<Longrightarrow> sublist y z \<Longrightarrow> sublist x z"
  by (auto simp: sublist_def) (metis append.assoc)

lemma mastered_lines_keeps: "sublist x acc \<Longrightarrow> sublist x (mastered_lines acc subs)"
  by (induction subs arbitrary: acc) (auto intro: sublist_in_left)

lemma mastered_lines_line:
  "sub \<in> set subs \<Longrightarrow> sublist (''- '' @ sub @ ''\<newline>'') (mastered_lines acc subs)"
proof (induction subs arbitrary: acc)
  case Nil
  then show ?case by simp
next
  case (Cons a subs)
  show ?case
  proof (cases "sub = a")
    case True
    have "sublist (''- '' @ a @ ''\<newline>'') (acc @ ''- '' @ a @ ''\<newline>'')"
      by (rule sublist_in_right) simp
    then show ?thesis using True by (simp add: mastered_lines_keeps)
  next
    case False
    with Cons show ?thesis by simp
  qed
qed

lemma previous_lines_keeps: "sublist x acc \<Longrightarrow> sublist x (previous_lines acc i qs)"
  by (induction qs arbitrary: acc i) (auto intro: sublist_in_left)

lemma previous_lines_line:
  "q \<in> set qs \<Longrightarrow>
   sublist (''. Question: '' @ q_question_text q @ ''\<newline>   Topic: '' @ q_topic q @
            ''\<newline>   Subtopic: '' @ q_subtopic q @ ''\<newline>'')
     (previous_lines acc i qs)"
proof (induction qs arbitrary: acc i)
  case Nil
  then show ?case by simp
next
  case (Cons a qs)
  show ?case
  proof (cases "q = a")
    case True
    have "sublist (''. Question: '' @ q_question_text a @ ''\<newline>   Topic: '' @ q_topic a @
            ''\<newline>   Subtopic: '' @ q_subtopic a @ ''\<newline>'')
          (acc @ str_nat i @ ''. Question: '' @ q_question_text a @ ''\<newline>   Topic: '' @ q_topic a @
            ''\<newline>   Subtopic: '' @ q_subtopic a @ ''\<newline>'')"
      by (rule sublist_in_right, rule sublist_in_right) (rule sublist_order.order.refl)
    then show ?thesis using True by (simp add: previous_lines_keeps)
  next
    case False
    with Cons show ?thesis by simp
  qed
qed

lemma prompt_has_mastered_text:
  assumes "get_topic_progress s topic language = Some p" and "p_mastered_subtopics p \<noteq> []"
    and "sublist x (mastered_lines ''\<newline>Mastered subtopics (avoid these):\<newline>'' (p_mastered_subtopics p))"
  shows "sublist x (generate_question_prompt s topic difficulty language previous_questions)"
  unfolding generate_question_prompt_def Let_def
  using assms
  by (simp only: option.case simp_thms if_True) (rule sublist_in_right, rule sublist_in_right, rule sublist_in_right, rule sublist_in_right, rule sublist_in_right, rule sublist_in_right, rule sublist_in_right, rule sublist_in_right, rule sublist_in_right, rule sublist_in_right, rule sublist_in_right, rule sublist_in_left)

lemma prompt_has_previous_text:
  assumes "previous_questions = Some qs" and "qs \<noteq> []"
    and "sublist x (previous_lines ''\<newline>Previous questions in this session:\<newline>'' 1 qs)"
  shows "sublist x (generate_question_prompt s topic difficulty language previous_questions)"
  unfolding generate_question_prompt_def Let_def
  using assms
  by (simp only: option.case length_greater_0_conv simp_thms if_True) (rule sublist_in_right, rule sublist_in_right, rule sublist_in_right, rule sublist_in_right, rule sublist_in_right, rule sublist_in_right, rule sublist_in_right, rule sublist_in_right, rule sublist_in_right, rule sublist_in_right, rule sublist_in_right, rule sublist_in_right, rule sublist_in_right, rule sublist_in_right, rule sublist_in_left)

text \<open>Decimal text is read back as the number it was written from.\<close>

lemma digit_char_is_digit: "d < 10 \<Longrightarrow> is_digit (digit_char d)"
  by (simp add: is_digit_def digit_char_def)

lemma digit_val_digit_char: "d < 10 \<Longrightarrow> digit_val (digit_char d) = d"
  by (simp add: digit_val_def digit_char_def)

lemma str_nat_not_empty: "str_nat n \<noteq> []"
  by (subst str_nat.simps) simp

lemma str_nat_digits: "list_all is_digit (str_nat n)"
proof (induction n rule: str_nat.induct)
  case (1 n)
  show ?case
  proof (cases "n < 10")
    case True
    then show ?thesis by (subst str_nat.simps) (simp add: digit_char_is_digit)
  next
    case False
    with 1 show ?thesis by (subst str_nat.simps) (simp add: digit_char_is_digit)
  qed
qed

lemma str_nat_value: "foldl (\<lambda>a c. 10 * a + digit_val c) 0 (str_nat n) = n"
proof (induction n rule: str_nat.induct)
  case (1 n)
  show ?case
  proof (cases "n < 10")
    case True
    then show ?thesis by (subst str_nat.simps) (simp add: digit_val_digit_char)
  next
    case False
    with 1 show ?thesis by (subst str_nat.simps) (simp add: digit_val_digit_char)
  qed
qed

lemma str_nat_length: "0 < w \<Longrightarrow> n < 10 ^ w \<Longrightarrow> length (str_nat n) \<le> w"
proof (induction w arbitrary: n)
  case 0
  then show ?case by simp
next
  case (Suc w)
  show ?case
  proof (cases "n < 10")
    case True
    then show ?thesis by (subst str_nat.simps) simp
  next
    case False
    then have w: "0 < w" using Suc.prems by (cases w) auto
    have "n div 10 < 10 ^ w" using Suc.prems(2) by (simp add: less_mult_imp_div_less mult.commute)
    from Suc.IH [OF w this] False show ?thesis by (subst str_nat.simps) simp
  qed
qed

lemma foldl_zeros:
  "foldl (\<lambda>a c. 10 * a + digit_val c) 0 (replicate k (CHR ''0'')) = 0"
  by (induction k) (simp_all add: digit_val_def)

lemma zero_pad_length: "0 < w \<Longrightarrow> n < 10 ^ w \<Longrightarrow> length (zero_pad w n) = w"
  using str_nat_length [of w n] by (simp add: zero_pad_def)

lemma zero_pad_parse: "parse_nat (zero_pad w n) = Some n"
proof -
  have "list_all is_digit (replicate (w - length (str_nat n)) (CHR ''0''))"
    by (simp add: list_all_iff is_digit_def)
  then show ?thesis
    by (simp add: parse_nat_def zero_pad_def str_nat_not_empty str_nat_digits foldl_zeros str_nat_value)
qed

lemma length4: "length xs = 4 \<Longrightarrow> \<exists>a b c d. xs = [a, b, c, d]"
  by (auto simp: length_Suc_conv eval_nat_numeral)

lemma length2: "length xs = 2 \<Longrightarrow> \<exists>a b. xs = [a, b]"
  by (auto simp: length_Suc_conv eval_nat_numeral)

lemma length6: "length xs = 6 \<Longrightarrow> \<exists>a b c d e f. xs = [a, b, c, d, e, f]"
  by (auto simp: length_Suc_conv eval_nat_numeral)

lemma fromisoformat_seconds:
  assumes "length Y = 4" "length Mo = 2" "length D = 2" "length H = 2" "length Mi = 2" "length S = 2"
    and "parse_nat Y = Some y" "parse_nat Mo = Some mo" "parse_nat D = Some d"
      "parse_nat H = Some h" "parse_nat Mi = Some mi" "parse_nat S = Some sec"
  shows "fromisoformat (Y @ ''-'' @ Mo @ ''-'' @ D @ ''T'' @ H @ '':'' @ Mi @ '':'' @ S) =
           make_datetime y mo d h mi sec 0"
proof -
  from assms(1) obtain y1 y2 y3 y4 where Y: "Y = [y1, y2, y3, y4]" using length4 by blast
  from assms(2) obtain m1 m2 where Mo: "Mo = [m1, m2]" using length2 by blast
  from assms(3) obtain d1 d2 where D: "D = [d1, d2]" using length2 by blast
  from assms(4) obtain h1 h2 where H: "H = [h1, h2]" using length2 by blast
  from assms(5) obtain i1 i2 where Mi: "Mi = [i1, i2]" using length2 by blast
  from assms(6) obtain s1 s2 where S: "S = [s1, s2]" using length2 by blast
  show ?thesis
    using assms(7-12) unfolding Y Mo D H Mi S
    by (simp add: fromisoformat_def digits_at_def)
qed

lemma fromisoformat_microseconds:
  assumes "length Y = 4" "length Mo = 2" "length D = 2" "length H = 2" "length Mi = 2" "length S = 2"
    and "length U = 6"
    and "parse_nat Y = Some y" "parse_nat Mo = Some mo" "parse_nat D = Some d"
      "parse_nat H = Some h" "parse_nat Mi = Some mi" "parse_nat S = Some sec" "parse_nat U = Some us"
  shows "fromisoformat (Y @ ''-'' @ Mo @ ''-'' @ D @ ''T'' @ H @ '':'' @ Mi @ '':'' @ S @ ''.'' @ U) =
           make_datetime y mo d h mi sec us"
proof -
  from assms(1) obtain y1 y2 y3 y4 where Y: "Y = [y1, y2, y3, y4]" using length4 by blast
  from assms(2) obtain m1 m2 where Mo: "Mo = [m1, m2]" using length2 by blast
  from assms(3) obtain d1 d2 where D: "D = [d1, d2]" using length2 by blast
  from assms(4) obtain h1 h2 where H: "H = [h1, h2]" using length2 by blast
  from assms(5) obtain i1 i2 where Mi: "Mi = [i1, i2]" using length2 by blast
  from assms(6) obtain s1 s2 where S: "S = [s1, s2]" using length2 by blast
  from assms(7) obtain u1 u2 u3 u4 u5 u6 where U: "U = [u1, u2, u3, u4, u5, u6]" using length6 by blast
  show ?thesis
    using assms(8-14) unfolding Y Mo D H Mi S U
    by (simp add: fromisoformat_def digits_at_def)
qed

lemma fromisoformat_isoformat:
  assumes "valid_datetime d"
  shows "fromisoformat (isoformat d) = Inr d"
proof -
  have days: "days_in_month (year d) (month d) \<le> 31"
    by (simp add: days_in_month_def)
  from assms have b: "year d < 10 ^ 4" "month d < 10 ^ 2" "day d < 10 ^ 2" "hour d < 10 ^ 2"
    "minute d < 10 ^ 2" "second d < 10 ^ 2" "microsecond d < 10 ^ 6"
    using days by (simp_all add: valid_datetime_def)
  have len: "length (zero_pad 4 (year d)) = 4" "length (zero_pad 2 (month d)) = 2"
    "length (zero_pad 2 (day d)) = 2" "length (zero_pad 2 (hour d)) = 2"
    "length (zero_pad 2 (minute d)) = 2" "length (zero_pad 2 (second d)) = 2"
    "length (zero_pad 6 (microsecond d)) = 6"
    by (rule zero_pad_length, simp, rule b)+
  have mk: "make_datetime (year d) (month d) (day d) (hour d) (minute d) (second d) (microsecond d) = Inr d"
    using assms by (cases d) (simp add: make_datetime_def)
  show ?thesis
  proof (cases "microsecond d = 0")
    case True
    have "fromisoformat (isoformat d) =
        make_datetime (year d) (month d) (day d) (hour d) (minute d) (second d) 0"
      by (simp only: isoformat_def True simp_thms if_True append_Nil2)
         (rule fromisoformat_seconds [OF len(1-6) zero_pad_parse zero_pad_parse zero_pad_parse
            zero_pad_parse zero_pad_parse zero_pad_parse])
    with True mk show ?thesis by simp
  next
    case False
    have "fromisoformat (isoformat d) =
        make_datetime (year d) (month d) (day d) (hour d) (minute d) (second d) (microsecond d)"
      by (simp only: isoformat_def False if_False)
         (rule fromisoformat_microseconds [OF len zero_pad_parse zero_pad_parse zero_pad_parse
            zero_pad_parse zero_pad_parse zero_pad_parse zero_pad_parse])
    with mk show ?thesis by simp
  qed
qed

lemma isoformat_not_empty: "isoformat d \<noteq> []"
  by (simp add: isoformat_def)

text \<open>Dumping and decoding, from one record up to the whole history.\<close>

lemma py_fromisoformat_isoformat:
  "valid_datetime d \<Longrightarrow> py_fromisoformat (PStr (isoformat d)) = Inr (PDatetime d)"
  by (simp add: py_fromisoformat_def fromisoformat_isoformat)

lemma session_round_trip:
  assumes "valid_datetime (s_timestamp x)" and "json_dump (session_dict x) = Inr doc"
  shows "deserialize_session doc = Inr (session_dict x)"
proof -
  from assms(2) have doc: "doc = PDict
     [(''topic'', PStr (s_topic x)),
      (''timestamp'', PStr (isoformat (s_timestamp x))),
      (''questions_asked'', PInt (s_questions_asked x)),
      (''correct_answers'', PInt (s_correct_answers x)),
      (''difficulty_level'', PStr (s_difficulty_level x)),
      (''language'', PStr (s_language x)),
      (''areas_for_improvement'', PList (map PStr (s_areas_for_improvement x))),
      (''mastered_subtopics'', PList (map PStr (s_mastered_subtopics x)))]"
    by (simp add: session_dict_def serialize_datetime_def json_dump_strs)
  show ?thesis
    unfolding doc
    by (simp add: deserialize_session_def py_in_def py_getitem_def py_setitem_def
        py_fromisoformat_isoformat [OF assms(1)] session_dict_def)
qed

lemma progress_round_trip:
  assumes "case p_last_session p of None \<Rightarrow> True | Some d \<Rightarrow> valid_datetime d"
    and "json_dump (progress_dict p) = Inr doc"
  shows "deserialize_progress doc = Inr (progress_dict p)"
proof (cases "p_last_session p")
  case None
  with assms(2) have doc: "doc = progress_dict p"
    by (simp add: progress_dict_def json_dump_strs json_dump_scores)
  show ?thesis
    unfolding doc using None
    by (simp add: deserialize_progress_def progress_dict_def py_in_def py_getitem_def py_truthy_def)
next
  case (Some d)
  with assms(1) have v: "valid_datetime d" by simp
  from assms(2) Some have doc: "doc = PDict
     [(''topic'', PStr (p_topic p)),
      (''skill_level'', PStr (p_skill_level p)),
      (''confidence_score'', PFloat (p_confidence_score p)),
      (''last_session'', PStr (isoformat d)),
      (''language'', PStr (p_language p)),
      (''recommended_topics'', PList (map PStr (p_recommended_topics p))),
      (''mastered_subtopics'', PList (map PStr (p_mastered_subtopics p))),
      (''subtopic_scores'', PDict (map (\<lambda>kv. (fst kv, PFloat (snd kv))) (p_subtopic_scores p)))]"
    by (simp add: progress_dict_def serialize_datetime_def json_dump_strs json_dump_scores)
  show ?thesis
    unfolding doc using Some
    by (simp add: deserialize_progress_def py_in_def py_getitem_def py_setitem_def py_truthy_def
        isoformat_not_empty py_fromisoformat_isoformat [OF v] progress_dict_def)
qed

lemma sessions_round_trip:
  "list_all (\<lambda>x. valid_datetime (s_timestamp x)) xs \<Longrightarrow>
   json_dump_list (map session_dict xs) = Inr docs \<Longrightarrow>
   for_each deserialize_session docs = Inr (map session_dict xs)"
proof (induction xs arbitrary: docs)
  case Nil
  then show ?case by simp
next
  case (Cons x xs)
  from Cons.prems(2) obtain doc rest where doc: "json_dump (session_dict x) = Inr doc"
    and rest: "json_dump_list (map session_dict xs) = Inr rest" and docs: "docs = doc # rest"
    by (auto simp: and_then_eq_Inr)
  from Cons.prems(1) have "valid_datetime (s_timestamp x)"
    and "list_all (\<lambda>x. valid_datetime (s_timestamp x)) xs" by simp_all
  with Cons.IH [OF _ rest] session_round_trip [OF _ doc] show ?case
    by (simp add: docs)
qed

lemma progress_items_round_trip:
  "list_all (\<lambda>kp. case p_last_session (snd kp) of None \<Rightarrow> True | Some d \<Rightarrow> valid_datetime d) ps \<Longrightarrow>
   json_dump_items (map (\<lambda>kp. (fst kp, progress_dict (snd kp))) ps) = Inr docs \<Longrightarrow>
   map fst docs = map fst ps \<and>
   for_each deserialize_progress (map snd docs) = Inr (map (\<lambda>kp. progress_dict (snd kp)) ps)"
proof (induction ps arbitrary: docs)
  case Nil
  then show ?case by simp
next
  case (Cons kp ps)
  from Cons.prems(2) obtain doc rest where doc: "json_dump (progress_dict (snd kp)) = Inr doc"
    and rest: "json_dump_items (map (\<lambda>kp. (fst kp, progress_dict (snd kp))) ps) = Inr rest"
    and docs: "docs = (fst kp, doc) # rest"
    by (cases kp) (auto simp: and_then_eq_Inr)
  from Cons.prems(1) have "case p_last_session (snd kp) of None \<Rightarrow> True | Some d \<Rightarrow> valid_datetime d"
    and "list_all (\<lambda>kp. case p_last_session (snd kp) of None \<Rightarrow> True | Some d \<Rightarrow> valid_datetime d) ps"
    by simp_all
  with Cons.IH [OF _ rest] progress_round_trip [OF _ doc] show ?case
    by (simp add: docs)
qed

lemma zip_keys_values: "zip (map fst ps) (map (\<lambda>kp. f (snd kp)) ps) = map (\<lambda>kp. (fst kp, f (snd kp))) ps"
  by (induction ps) simp_all

lemma history_round_trip:
  assumes "valid_timestamps h" and "json_dump (history_dict h) = Inr doc"
  shows "deserialize_datetime doc = Inr (history_dict h)"
proof -
  from assms(2) obtain sdocs pdocs
    where s: "json_dump_list (map session_dict (sessions h)) = Inr sdocs"
      and p: "json_dump_items (map (\<lambda>kp. (fst kp, progress_dict (snd kp))) (progress h)) = Inr pdocs"
      and doc: "doc = PDict [(''sessions'', PList sdocs), (''progress'', PDict pdocs)]"
    by (auto simp: history_dict_def and_then_eq_Inr)
  from assms(1) have vs: "list_all (\<lambda>x. valid_datetime (s_timestamp x)) (sessions h)"
    and vp: "list_all (\<lambda>kp. case p_last_session (snd kp) of None \<Rightarrow> True | Some d \<Rightarrow> valid_datetime d)
        (progress h)"
    by (simp_all add: valid_timestamps_def)
  note S = sessions_round_trip [OF vs s]
  note P = progress_items_round_trip [OF vp p]
  show ?thesis
    unfolding doc
    by (simp add: deserialize_datetime_def py_in_def py_getitem_def py_setitem_def
        deserialize_sessions_def deserialize_progress_values_def S P zip_keys_values history_dict_def)
qed

lemma test_now_valid: "valid_datetime test_now"
  by (simp add: valid_datetime_def test_now_def days_in_month_def is_leap_def)

lemma test_now_text: "isoformat test_now = ''2024-02-29T09:05:07.001500''"
  by code_simp

text \<open>The fresh service satisfies the invariants, and saving a session keeps them.\<close>

lemma new_service_invariants:
  "stored_under_own_key new_service" "scores_in_range new_service"
  "distinct (map fst (progress (history new_service)))" "valid_timestamps (history new_service)"
  by (simp_all add: stored_under_own_key_def scores_in_range_def valid_timestamps_def new_service_def)

lemma save_session_progress:
  "save_session s x = Inr s' \<Longrightarrow> progress (history s') = progress (history s)"
  using save_session_history [of s x s'] by simp

lemma update_progress_distinct_keys:
  assumes "distinct (map fst (progress (history s)))" and "update_progress s p = Inr s'"
  shows "distinct (map fst (progress (history s')))"
  using assms(1) update_progress_history [OF assms(2)] by (simp add: distinct_dict_set)

text \<open>The score that a graded answer leaves.\<close>

lemma evaluate_answer_mean:
  assumes rec: "get_topic_progress s (q_topic q) language = Some p"
    and own: "progress_key (p_topic p) (p_language p) = progress_key (q_topic q) language"
    and field: "py_getitem evaluation ''subtopic_score'' = Inr v"
    and num: "py_number v = Inr r"
  shows "\<exists>s' p'. evaluate_answer s q user_answer language evaluation = Inr (s', evaluation) \<and>
           get_topic_progress s' (q_topic q) language = Some p' \<and>
           dict_get (p_subtopic_scores p') (q_subtopic q) =
             Some ((dict_get_default (p_subtopic_scores p) (q_subtopic q) 0 + r) / 2) \<and>
           (dict_get (p_subtopic_scores p) (q_subtopic q) = None \<longrightarrow>
              dict_get (p_subtopic_scores p') (q_subtopic q) = Some (r / 2)) \<and>
           history_file s' = Document (projr (json_dump (history_dict (history s')))) \<and>
           json_dump (history_dict (history s')) = Inr (projr (json_dump (history_dict (history s'))))"
proof -
  let ?p' = "grade_subtopic p (q_subtopic q) r"
  from evaluate_answer_stored [OF rec own field num] obtain s'
    where ev: "evaluate_answer s q user_answer language evaluation = Inr (s', evaluation)"
      and g: "get_topic_progress s' (q_topic q) language = Some ?p'"
      and written: "history_file s' = Document (projr (json_dump (history_dict (history s'))))"
        "json_dump (history_dict (history s')) = Inr (projr (json_dump (history_dict (history s'))))"
    by blast
  have sc: "dict_get (p_subtopic_scores ?p') (q_subtopic q) =
      Some ((dict_get_default (p_subtopic_scores p) (q_subtopic q) 0 + r) / 2)"
    by (simp add: grade_subtopic_scores)
  have first: "dict_get (p_subtopic_scores p) (q_subtopic q) = None \<longrightarrow>
      dict_get (p_subtopic_scores ?p') (q_subtopic q) = Some (r / 2)"
    by (simp add: grade_subtopic_scores dict_get_default_def)
  show ?thesis
    by (rule exI [of _ s'], rule exI [of _ ?p']) (intro conjI ev g sc first written)
qed

text \<open>The last int that still converts to a double, and the first that does not.\<close>

lemma py_number_int_limit:
  "py_number (PInt (2 ^ 1024 - 2 ^ 970)) = Inl OverflowError"
  "py_number (PInt (2 ^ 1024 - 2 ^ 970 - 1)) = Inr (2 ^ 1024 - 2 ^ 970 - 1)"
  "py_number (PInt (- (2 ^ 1024 - 2 ^ 970))) = Inl OverflowError"
  "py_number (PInt 1) = Inr 1"
  by (simp_all add: py_number_def float_int_limit_def)

section \<open>The claims\<close>


subsection \<open>Storing progress\<close>

text \<open>
  Claim C7. \<^verbatim>\<open>update_progress\<close> upserts by the key of (topic, language): after two
  successive calls with records of the same topic and language, the progress dict (one
  entry per key, as every Python dict) holds exactly one record under that key, the
  second one written, and \<^verbatim>\<open>get_topic_progress\<close> for that topic and language returns it.
\<close>

theorem update_progress_upsert:
  assumes "distinct (map fst (progress (history s)))"
    and "p_topic p2 = p_topic p1" and "p_language p2 = p_language p1"
  shows "\<exists>s1 s2. update_progress s p1 = Inr s1 \<and> update_progress s1 p2 = Inr s2 \<and>
           entries_for (progress (history s2)) (progress_key (p_topic p1) (p_language p1)) = [p2] \<and>
           get_topic_progress s2 (p_topic p1) (p_language p1) = Some p2 \<and>
           distinct (map fst (progress (history s2)))"
proof -
  let ?k = "progress_key (p_topic p1) (p_language p1)"
  obtain s1 where s1: "update_progress s p1 = Inr s1"
    using update_progress_ok [of s p1] by blast
  obtain s2 where s2: "update_progress s1 p2 = Inr s2"
    using update_progress_ok [of s1 p2] by blast
  have h1: "progress (history s1) = dict_set (progress (history s)) ?k p1"
    using update_progress_history [OF s1] by simp
  have h2: "progress (history s2) = dict_set (progress (history s1)) ?k p2"
    using update_progress_history [OF s2] assms(2,3) by simp
  have d1: "distinct (map fst (progress (history s1)))"
    unfolding h1 using assms(1) by (rule distinct_dict_set)
  have d2: "distinct (map fst (progress (history s2)))"
    unfolding h2 using d1 by (rule distinct_dict_set)
  have e: "entries_for (progress (history s2)) ?k = [p2]"
    unfolding h2 using d1 by (rule entries_for_dict_set)
  have g: "get_topic_progress s2 (p_topic p1) (p_language p1) = Some p2"
    by (simp add: get_topic_progress_def h2)
  from s1 s2 e g d2 show ?thesis by blast
qed

theorem update_progress_upsert_witness:
  "distinct (map fst (progress (history test_service))) \<and>
   (\<exists>s1 s2. update_progress test_service (test_progress\<lparr>p_skill_level := ''Beginner''\<rparr>) = Inr s1 \<and>
      update_progress s1 (test_progress\<lparr>p_skill_level := ''Advanced''\<rparr>) = Inr s2 \<and>
      entries_for (progress (history s2)) (progress_key ''Python'' ''EN'')
        = [test_progress\<lparr>p_skill_level := ''Advanced''\<rparr>] \<and>
      get_topic_progress s2 ''Python'' ''EN'' = Some (test_progress\<lparr>p_skill_level := ''Advanced''\<rparr>) \<and>
      distinct (map fst (progress (history s2))))"
  using update_progress_upsert [of test_service "test_progress\<lparr>p_skill_level := ''Advanced''\<rparr>"
      "test_progress\<lparr>p_skill_level := ''Beginner''\<rparr>"]
  by (simp add: test_service_def test_progress_def)

subsection \<open>Saving sessions\<close>

text \<open>
  Claim C8. The sessions list is append-only: from every service, \<open>N\<close> calls of
  \<^verbatim>\<open>save_session\<close> all return and leave the sessions list that was there, unchanged,
  followed by the \<open>N\<close> sessions in call order; its length has grown by exactly \<open>N\<close>.
\<close>

theorem save_session_append_only:
  "\<exists>s'. save_sessions s xs = Inr s' \<and>
     sessions (history s') = sessions (history s) @ xs \<and>
     length (sessions (history s')) = length (sessions (history s)) + length xs"
  using save_sessions_ok [of s xs] by auto

subsection \<open>The progress key\<close>

text \<open>
  Claim C10. The key \<^verbatim>\<open>f"{topic}_{language}"\<close> is not injective: the distinct pairs
  (\<^verbatim>\<open>A_B\<close>, \<^verbatim>\<open>C\<close>) and (\<^verbatim>\<open>A\<close>, \<^verbatim>\<open>B_C\<close>) have the same key, so a record
  stored for the first pair is what \<^verbatim>\<open>get_topic_progress\<close> returns for the second, and
  a later write for the second pair replaces it.
\<close>

theorem progress_key_not_injective:
  "(''A_B'', ''C'') \<noteq> (''A'', ''B_C'') \<and>
   progress_key ''A_B'' ''C'' = progress_key ''A'' ''B_C'' \<and>
   (\<exists>s1. update_progress s (p\<lparr>p_topic := ''A_B'', p_language := ''C''\<rparr>) = Inr s1 \<and>
      get_topic_progress s1 ''A'' ''B_C'' = Some (p\<lparr>p_topic := ''A_B'', p_language := ''C''\<rparr>) \<and>
      (\<exists>s2. update_progress s1 (p'\<lparr>p_topic := ''A'', p_language := ''B_C''\<rparr>) = Inr s2 \<and>
         get_topic_progress s2 ''A_B'' ''C'' = Some (p'\<lparr>p_topic := ''A'', p_language := ''B_C''\<rparr>)))"
proof -
  let ?p = "p\<lparr>p_topic := ''A_B'', p_language := ''C''\<rparr>"
  let ?p' = "p'\<lparr>p_topic := ''A'', p_language := ''B_C''\<rparr>"
  have k: "progress_key ''A_B'' ''C'' = progress_key ''A'' ''B_C''"
    by (simp add: progress_key_def)
  obtain s1 where s1: "update_progress s ?p = Inr s1"
    using update_progress_ok [of s ?p] by blast
  obtain s2 where s2: "update_progress s1 ?p' = Inr s2"
    using update_progress_ok [of s1 ?p'] by blast
  have g1: "get_topic_progress s1 ''A'' ''B_C'' = Some ?p"
    using update_progress_history [OF s1] by (simp add: get_topic_progress_def k)
  have g2: "get_topic_progress s2 ''A_B'' ''C'' = Some ?p'"
    using update_progress_history [OF s2] by (simp add: get_topic_progress_def k)
  from k s1 s2 g1 g2 show ?thesis by auto
qed


subsection \<open>Grading an answer\<close>

text \<open>
  Claim C1, as amended. When a progress record is stored for the topic and language of the
  answer, under the key of its own topic and language, \<^verbatim>\<open>evaluate_answer\<close> returns and
  leaves under that key a record whose score for the subtopic is exactly \<open>(p + r) / 2\<close>:
  \<open>r\<close> is the number the oracle gave (a float, a bool or an int within the range of the
  doubles, read by \<open>py_number\<close>) and \<open>p\<close> the score stored before, 0.0 when the record
  had none for the subtopic, so that a first score is \<open>r / 2\<close>. The history file then
  holds the dump of the new history. When no progress record is stored for the topic and
  language, the call returns the evaluation and writes nothing.
\<close>

theorem evaluate_answer_average:
  assumes field: "py_getitem evaluation ''subtopic_score'' = Inr v"
    and num: "py_number v = Inr r"
  shows "(get_topic_progress s (q_topic q) language = None \<longrightarrow>
            evaluate_answer s q user_answer language evaluation = Inr (s, evaluation)) \<and>
         (\<forall>p. get_topic_progress s (q_topic q) language = Some p \<longrightarrow>
            progress_key (p_topic p) (p_language p) = progress_key (q_topic q) language \<longrightarrow>
            (\<exists>s' p'. evaluate_answer s q user_answer language evaluation = Inr (s', evaluation) \<and>
               get_topic_progress s' (q_topic q) language = Some p' \<and>
               dict_get (p_subtopic_scores p') (q_subtopic q) =
                 Some ((dict_get_default (p_subtopic_scores p) (q_subtopic q) 0 + r) / 2) \<and>
               (dict_get (p_subtopic_scores p) (q_subtopic q) = None \<longrightarrow>
                  dict_get (p_subtopic_scores p') (q_subtopic q) = Some (r / 2)) \<and>
               history_file s' = Document (projr (json_dump (history_dict (history s')))) \<and>
               json_dump (history_dict (history s')) =
                 Inr (projr (json_dump (history_dict (history s'))))))"
proof (intro conjI allI impI)
  assume "get_topic_progress s (q_topic q) language = None"
  then show "evaluate_answer s q user_answer language evaluation = Inr (s, evaluation)"
    by (rule evaluate_answer_none)
next
  fix p
  assume "get_topic_progress s (q_topic q) language = Some p"
    and "progress_key (p_topic p) (p_language p) = progress_key (q_topic q) language"
  then show "\<exists>s' p'. evaluate_answer s q user_answer language evaluation = Inr (s', evaluation) \<and>
               get_topic_progress s' (q_topic q) language = Some p' \<and>
               dict_get (p_subtopic_scores p') (q_subtopic q) =
                 Some ((dict_get_default (p_subtopic_scores p) (q_subtopic q) 0 + r) / 2) \<and>
               (dict_get (p_subtopic_scores p) (q_subtopic q) = None \<longrightarrow>
                  dict_get (p_subtopic_scores p') (q_subtopic q) = Some (r / 2)) \<and>
               history_file s' = Document (projr (json_dump (history_dict (history s')))) \<and>
               json_dump (history_dict (history s')) =
                 Inr (projr (json_dump (history_dict (history s'))))"
    using field num by (rule evaluate_answer_mean)
qed

theorem evaluate_answer_average_witness:
  "get_topic_progress test_service (q_topic test_question) ''EN'' = Some test_progress \<and>
   progress_key (p_topic test_progress) (p_language test_progress) =
     progress_key (q_topic test_question) ''EN'' \<and>
   py_getitem (test_evaluation 0.9) ''subtopic_score'' = Inr (PFloat 0.9) \<and>
   py_number (PFloat 0.9) = Inr 0.9 \<and>
   (\<exists>s' p'. evaluate_answer test_service test_question test_answer ''EN'' (test_evaluation 0.9) =
        Inr (s', test_evaluation 0.9) \<and>
      get_topic_progress s' ''Python'' ''EN'' = Some p' \<and>
      dict_get (p_subtopic_scores p') ''Decorators'' = Some 0.75 \<and>
      history_file s' = Document (projr (json_dump (history_dict (history s'))))) \<and>
   dict_get (p_subtopic_scores test_progress) ''Generators'' = None \<and>
   (\<exists>s' p'. evaluate_answer test_service (test_question\<lparr>q_subtopic := ''Generators''\<rparr>) test_answer ''EN''
        (test_evaluation 0.9) = Inr (s', test_evaluation 0.9) \<and>
      get_topic_progress s' ''Python'' ''EN'' = Some p' \<and>
      dict_get (p_subtopic_scores p') ''Generators'' = Some 0.45) \<and>
   get_topic_progress new_service (q_topic test_question) ''EN'' = None \<and>
   evaluate_answer new_service test_question test_answer ''EN'' (test_evaluation 0.9) =
     Inr (new_service, test_evaluation 0.9)"
proof -
  have norec: "get_topic_progress new_service (q_topic test_question) ''EN'' = None"
    by (simp add: get_topic_progress_def new_service_def)
  have c: "evaluate_answer new_service test_question test_answer ''EN'' (test_evaluation 0.9) =
     Inr (new_service, test_evaluation 0.9)"
    using evaluate_answer_average [OF test_evaluation_score [of "0.9"], THEN conjunct1,
        of new_service test_question "''EN''" test_answer] norec
    by simp
  have rec: "get_topic_progress test_service (q_topic test_question) ''EN'' = Some test_progress"
    using test_service_record by (simp add: test_question_def)
  have rec': "get_topic_progress test_service (q_topic (test_question\<lparr>q_subtopic := ''Generators''\<rparr>)) ''EN''
      = Some test_progress"
    using rec by simp
  have own: "progress_key (p_topic test_progress) (p_language test_progress) =
      progress_key (q_topic test_question) ''EN''"
    by (simp add: test_progress_def test_question_def)
  have own': "progress_key (p_topic test_progress) (p_language test_progress) =
      progress_key (q_topic (test_question\<lparr>q_subtopic := ''Generators''\<rparr>)) ''EN''"
    using own by simp
  have none: "dict_get (p_subtopic_scores test_progress) ''Generators'' = None"
    by (simp add: test_progress_def)
  have a: "\<exists>s' p'. evaluate_answer test_service test_question test_answer ''EN'' (test_evaluation 0.9) =
        Inr (s', test_evaluation 0.9) \<and>
      get_topic_progress s' ''Python'' ''EN'' = Some p' \<and>
      dict_get (p_subtopic_scores p') ''Decorators'' = Some 0.75 \<and>
      history_file s' = Document (projr (json_dump (history_dict (history s'))))"
  proof -
    from evaluate_answer_average [OF test_evaluation_score [of "0.9"], where user_answer = test_answer,
        THEN conjunct2, rule_format, OF rec own]
    obtain s' p' where
      "evaluate_answer test_service test_question test_answer ''EN'' (test_evaluation 0.9) =
         Inr (s', test_evaluation 0.9)"
      "get_topic_progress s' (q_topic test_question) ''EN'' = Some p'"
      "dict_get (p_subtopic_scores p') (q_subtopic test_question) =
         Some ((dict_get_default (p_subtopic_scores test_progress) (q_subtopic test_question) 0 + 0.9) / 2)"
      "history_file s' = Document (projr (json_dump (history_dict (history s'))))"
      by blast
    then show ?thesis
      by (simp add: test_question_def test_progress_def dict_get_default_def)
  qed
  have b: "\<exists>s' p'. evaluate_answer test_service (test_question\<lparr>q_subtopic := ''Generators''\<rparr>) test_answer ''EN''
        (test_evaluation 0.9) = Inr (s', test_evaluation 0.9) \<and>
      get_topic_progress s' ''Python'' ''EN'' = Some p' \<and>
      dict_get (p_subtopic_scores p') ''Generators'' = Some 0.45"
  proof -
    from evaluate_answer_average [OF test_evaluation_score [of "0.9"], where user_answer = test_answer,
        THEN conjunct2, rule_format, OF rec' own']
    obtain s' p' where
      "evaluate_answer test_service (test_question\<lparr>q_subtopic := ''Generators''\<rparr>) test_answer ''EN''
         (test_evaluation 0.9) = Inr (s', test_evaluation 0.9)"
      "get_topic_progress s' (q_topic (test_question\<lparr>q_subtopic := ''Generators''\<rparr>)) ''EN'' = Some p'"
      "dict_get (p_subtopic_scores test_progress) (q_subtopic (test_question\<lparr>q_subtopic := ''Generators''\<rparr>)) = None \<longrightarrow>
         dict_get (p_subtopic_scores p') (q_subtopic (test_question\<lparr>q_subtopic := ''Generators''\<rparr>)) = Some (0.9 / 2)"
      by (elim exE conjE) (rule that)
    with none show ?thesis
      by (simp add: test_question_def)
  qed
  from rec own test_evaluation_score [of "0.9"] a none b norec c show ?thesis by (intro conjI)
qed


text \<open>
  Claim C1 as stated fails where no progress record is stored for the topic and language:
  on the fresh service the call returns the evaluation and writes nothing, so no score
  \<open>r / 2\<close> is recorded.
\<close>

theorem evaluate_answer_without_record:
  "get_topic_progress new_service (q_topic test_question) ''EN'' = None \<and>
   evaluate_answer new_service test_question test_answer ''EN'' (test_evaluation 0.8) =
     Inr (new_service, test_evaluation 0.8)"
  by (simp add: evaluate_answer_def get_topic_progress_def new_service_def)

text \<open>
  A reply whose score is an int beyond the doubles gives no number \<open>r\<close> to average: the
  sum raises OverflowError and nothing is written.
\<close>

lemma evaluate_answer_overflow:
  "evaluate_answer test_service test_question test_answer ''EN''
     (PDict [(''subtopic_score'', PInt (10 ^ 400))]) = Inl OverflowError"
proof -
  have "get_topic_progress test_service (q_topic test_question) ''EN'' = Some test_progress"
    using test_service_record by (simp add: test_question_def)
  moreover have "py_number (PInt (10 ^ 400)) = Inl OverflowError"
    by (simp add: py_number_def float_int_limit_def)
  ultimately show ?thesis
    by (simp add: evaluate_answer_def py_getitem_def)
qed

text \<open>
  Claim C2, as amended. \<^verbatim>\<open>evaluate_answer\<close> neither validates nor clamps the score of the
  oracle: it stores the mean as computed. When every stored score lies in [0, 1] and the
  reply of the oracle has a \<^verbatim>\<open>subtopic_score\<close> that is a number in [0, 1], the call
  returns and every stored score still lies in [0, 1].
\<close>

theorem evaluate_answer_scores_in_range:
  assumes inv: "scores_in_range s"
    and field: "py_getitem evaluation ''subtopic_score'' = Inr v"
    and num: "py_number v = Inr r"
    and lo: "0 \<le> r" and hi: "r \<le> 1"
  shows "\<exists>s'. evaluate_answer s q user_answer language evaluation = Inr (s', evaluation) \<and>
           scores_in_range s'"
proof (cases "get_topic_progress s (q_topic q) language")
  case None
  with inv show ?thesis by (simp add: evaluate_answer_none)
next
  case (Some p)
  from evaluate_answer_some [OF Some field num] obtain s'
    where ev: "evaluate_answer s q user_answer language evaluation = Inr (s', evaluation)"
      and up: "update_progress s (grade_subtopic p (q_subtopic q) r) = Inr s'"
    by blast
  have "list_all (\<lambda>kv. 0 \<le> snd kv \<and> snd kv \<le> 1) (p_subtopic_scores p)"
    using list_all_dict_get [OF inv [unfolded scores_in_range_def] Some [unfolded get_topic_progress_def]]
    by simp
  from grade_subtopic_range [OF this lo hi]
  have "scores_in_range s'"
    using inv update_progress_history [OF up]
    by (simp add: scores_in_range_def list_all_dict_set)
  with ev show ?thesis by blast
qed

theorem evaluate_answer_scores_in_range_witness:
  "scores_in_range test_service \<and>
   py_getitem (test_evaluation 0.9) ''subtopic_score'' = Inr (PFloat 0.9) \<and>
   py_number (PFloat 0.9) = Inr 0.9 \<and> (0::real) \<le> 0.9 \<and> (0.9::real) \<le> 1 \<and>
   (\<exists>s'. evaluate_answer test_service test_question test_answer ''EN'' (test_evaluation 0.9) =
      Inr (s', test_evaluation 0.9) \<and> scores_in_range s')"
proof -
  have inv: "scores_in_range test_service"
    by (simp add: scores_in_range_def test_service_def test_progress_def)
  have lo: "(0::real) \<le> 0.9" and hi: "(0.9::real) \<le> 1" by simp_all
  from evaluate_answer_scores_in_range [OF inv test_evaluation_score [of "0.9"] lo hi]
  have "\<exists>s'. evaluate_answer test_service test_question test_answer ''EN'' (test_evaluation 0.9) =
      Inr (s', test_evaluation 0.9) \<and> scores_in_range s'" .
  with inv test_evaluation_score [of "0.9"] lo hi show ?thesis by (intro conjI)
qed


text \<open>
  Claim C2 as stated fails: a score 3 from the oracle takes the stored score of
  Decorators from 0.6 to 1.8, a reply without \<^verbatim>\<open>subtopic_score\<close> raises KeyError and one
  whose score is a string raises TypeError.
\<close>

theorem evaluate_answer_does_not_clamp:
  "scores_in_range test_service \<and>
   (\<exists>s' p'. evaluate_answer test_service test_question test_answer ''EN'' (test_evaluation 3) =
       Inr (s', test_evaluation 3) \<and>
     get_topic_progress s' ''Python'' ''EN'' = Some p' \<and>
     dict_get (p_subtopic_scores p') ''Decorators'' = Some 1.8 \<and>
     \<not> scores_in_range s') \<and>
   evaluate_answer test_service test_question test_answer ''EN''
     (PDict [(''is_correct'', PBool True)]) = Inl KeyError \<and>
   evaluate_answer test_service test_question test_answer ''EN''
     (PDict [(''subtopic_score'', PStr ''0.9'')]) = Inl TypeError"
proof -
  have inv: "scores_in_range test_service"
    by (simp add: scores_in_range_def test_service_def test_progress_def)
  have rec: "get_topic_progress test_service (q_topic test_question) ''EN'' = Some test_progress"
    using test_service_record by (simp add: test_question_def)
  from evaluate_answer_some [OF rec test_evaluation_score [of 3]] obtain s'
    where ev: "evaluate_answer test_service test_question test_answer ''EN'' (test_evaluation 3) =
        Inr (s', test_evaluation 3)"
      and up: "update_progress test_service (grade_subtopic test_progress (q_subtopic test_question) 3) = Inr s'"
    by blast
  have h: "progress (history s') =
      [(''Python_EN'', grade_subtopic test_progress ''Decorators'' 3)]"
    using update_progress_history [OF up]
    by (simp add: test_service_def test_progress_def test_question_def progress_key_def)
  have sc: "p_subtopic_scores (grade_subtopic test_progress ''Decorators'' 3) =
      [(''List Comprehension'', 0.9), (''Basic Functions'', 0.95), (''Decorators'', 1.8)]"
    by (simp add: grade_subtopic_scores test_progress_def dict_get_default_def)
  have g: "get_topic_progress s' ''Python'' ''EN'' = Some (grade_subtopic test_progress ''Decorators'' 3)"
    by (simp add: get_topic_progress_def h progress_key_def)
  have d: "dict_get (p_subtopic_scores (grade_subtopic test_progress ''Decorators'' 3)) ''Decorators'' = Some 1.8"
    by (simp add: sc)
  have n: "\<not> scores_in_range s'"
    by (simp add: scores_in_range_def h sc)
  have k: "evaluate_answer test_service test_question test_answer ''EN''
     (PDict [(''is_correct'', PBool True)]) = Inl KeyError"
    using rec by (simp add: evaluate_answer_def py_getitem_def)
  have ty: "evaluate_answer test_service test_question test_answer ''EN''
     (PDict [(''subtopic_score'', PStr ''0.9'')]) = Inl TypeError"
    using rec by (simp add: evaluate_answer_def py_getitem_def py_number_def)
  from ev g d n have "\<exists>s' p'. evaluate_answer test_service test_question test_answer ''EN'' (test_evaluation 3) =
       Inr (s', test_evaluation 3) \<and>
     get_topic_progress s' ''Python'' ''EN'' = Some p' \<and>
     dict_get (p_subtopic_scores p') ''Decorators'' = Some 1.8 \<and>
     \<not> scores_in_range s'"
    by (intro exI conjI)
  with inv k ty show ?thesis by (intro conjI)
qed

subsection \<open>Mastered subtopics\<close>

text \<open>
  Claim C4. Under \<^verbatim>\<open>evaluate_answer\<close> the mastered subtopics of a record only grow and
  gain no duplicates: when an answer is graded on a record, the subtopic is among the
  mastered ones as soon as its new score is at least 0.85, every subtopic mastered before
  is mastered after, and after any later run of graded answers (whatever their scores)
  all of them are still there; a list without duplicates stays without duplicates.
\<close>

theorem mastered_subtopics_monotone:
  assumes inv: "stored_under_own_key s"
    and rec: "get_topic_progress s (q_topic q) language = Some p"
    and ev: "evaluate_answer s q user_answer language evaluation = Inr (s1, evaluation1)"
    and later: "evaluate_answers s1 answers = Inr s2"
  shows "\<exists>p1 p2. get_topic_progress s1 (q_topic q) language = Some p1 \<and>
           get_topic_progress s2 (q_topic q) language = Some p2 \<and>
           (0.85 \<le> dict_get_default (p_subtopic_scores p1) (q_subtopic q) 0 \<longrightarrow>
              q_subtopic q \<in> set (p_mastered_subtopics p1)) \<and>
           set (p_mastered_subtopics p) \<subseteq> set (p_mastered_subtopics p1) \<and>
           set (p_mastered_subtopics p1) \<subseteq> set (p_mastered_subtopics p2) \<and>
           (distinct (p_mastered_subtopics p) \<longrightarrow>
              distinct (p_mastered_subtopics p1) \<and> distinct (p_mastered_subtopics p2))"
proof -
  from evaluate_answer_cases [OF ev] rec obtain r
    where up: "update_progress s (grade_subtopic p (q_subtopic q) r) = Inr s1"
    by auto
  let ?p1 = "grade_subtopic p (q_subtopic q) r"
  have key: "progress_key (p_topic p) (p_language p) = progress_key (q_topic q) language"
    using inv rec own_key_lookup unfolding stored_under_own_key_def get_topic_progress_def by blast
  have p1: "get_topic_progress s1 (q_topic q) language = Some ?p1"
    using update_progress_history [OF up] key by (simp add: get_topic_progress_def)
  have inv1: "stored_under_own_key s1"
    using evaluate_answer_own_key [OF inv ev] by simp
  from evaluate_answers_run [OF inv1 later p1] obtain p2
    where p2: "get_topic_progress s2 (q_topic q) language = Some p2"
      and sub2: "set (p_mastered_subtopics ?p1) \<subseteq> set (p_mastered_subtopics p2)"
      and dis2: "distinct (p_mastered_subtopics ?p1) \<longrightarrow> distinct (p_mastered_subtopics p2)"
    by blast
  from p1 p2 sub2 dis2 grade_subtopic_reached [of p "q_subtopic q" r]
    grade_subtopic_subset [of p "q_subtopic q" r] grade_subtopic_distinct [of p "q_subtopic q" r]
  show ?thesis by blast
qed


theorem mastered_subtopics_monotone_witness:
  "stored_under_own_key near_mastery_service \<and>
   get_topic_progress near_mastery_service (q_topic test_question) ''EN'' =
     Some (test_progress\<lparr>p_subtopic_scores := [(''Decorators'', 0.8)]\<rparr>) \<and>
   ''Decorators'' \<notin> set (p_mastered_subtopics test_progress) \<and>
   distinct (p_mastered_subtopics test_progress) \<and>
   (\<exists>s1 s2 p1 p2.
      evaluate_answer near_mastery_service test_question test_answer ''EN'' (test_evaluation 0.95) =
        Inr (s1, test_evaluation 0.95) \<and>
      evaluate_answers s1 [(test_question, test_answer, ''EN'', test_evaluation 0)] = Inr s2 \<and>
      get_topic_progress s1 ''Python'' ''EN'' = Some p1 \<and>
      get_topic_progress s2 ''Python'' ''EN'' = Some p2 \<and>
      dict_get (p_subtopic_scores p1) ''Decorators'' = Some 0.875 \<and>
      ''Decorators'' \<in> set (p_mastered_subtopics p1) \<and>
      dict_get (p_subtopic_scores p2) ''Decorators'' = Some 0.4375 \<and>
      ''Decorators'' \<in> set (p_mastered_subtopics p2) \<and>
      distinct (p_mastered_subtopics p2))"
proof -
  let ?p = "test_progress\<lparr>p_subtopic_scores := [(''Decorators'', 0.8)]\<rparr>"
  have inv: "stored_under_own_key near_mastery_service"
    by (simp add: stored_under_own_key_def near_mastery_service_def test_progress_def progress_key_def)
  have rec: "get_topic_progress near_mastery_service (q_topic test_question) ''EN'' = Some ?p"
    by (simp add: get_topic_progress_def near_mastery_service_def test_question_def progress_key_def)
  have notin: "''Decorators'' \<notin> set (p_mastered_subtopics test_progress)"
    and dist: "distinct (p_mastered_subtopics test_progress)"
    by (simp_all add: test_progress_def)
  have sub: "q_subtopic test_question = ''Decorators''" and top: "q_topic test_question = ''Python''"
    by (simp_all add: test_question_def)
  from evaluate_answer_some [OF rec test_evaluation_score [of "0.95"]] obtain s1
    where ev1: "evaluate_answer near_mastery_service test_question test_answer ''EN'' (test_evaluation 0.95) =
        Inr (s1, test_evaluation 0.95)"
    by blast
  from evaluate_answer_stored [OF rec _ test_evaluation_score [of "0.95"], where user_answer = test_answer]
    ev1
  obtain p1 where g1: "get_topic_progress s1 ''Python'' ''EN'' = Some p1"
    and sc1: "dict_get (p_subtopic_scores p1) ''Decorators'' = Some 0.875"
    by (auto simp: test_progress_def test_question_def dict_get_default_def grade_subtopic_scores)
  have rec1: "get_topic_progress s1 (q_topic test_question) ''EN'' = Some p1"
    using g1 top by simp
  from evaluate_answer_some [OF rec1 test_evaluation_score [of 0]] obtain s2
    where ev2: "evaluate_answer s1 test_question test_answer ''EN'' (test_evaluation 0) =
        Inr (s2, test_evaluation 0)"
    by blast
  then have later: "evaluate_answers s1 [(test_question, test_answer, ''EN'', test_evaluation 0)] = Inr s2"
    by simp
  have inv1: "stored_under_own_key s1"
    using evaluate_answer_own_key [OF inv ev1] by simp
  have own1: "progress_key (p_topic p1) (p_language p1) = progress_key (q_topic test_question) ''EN''"
    using inv1 rec1 own_key_lookup unfolding stored_under_own_key_def get_topic_progress_def by blast
  from evaluate_answer_stored [OF rec1 own1 test_evaluation_score [of 0], where user_answer = test_answer]
    ev2 sc1
  obtain p2' where g2': "get_topic_progress s2 ''Python'' ''EN'' = Some p2'"
    and sc2: "dict_get (p_subtopic_scores p2') ''Decorators'' = Some 0.4375"
    by (auto simp: test_question_def dict_get_default_def grade_subtopic_scores)
  from mastered_subtopics_monotone [OF inv rec ev1 later] g1 g2' sc1 dist
  have m1: "''Decorators'' \<in> set (p_mastered_subtopics p1)"
    and m2: "''Decorators'' \<in> set (p_mastered_subtopics p2')"
    and d2: "distinct (p_mastered_subtopics p2')"
    by (auto simp: top sub dict_get_default_def)
  from ev1 later g1 g2' sc1 m1 sc2 m2 d2
  have "\<exists>s1 s2 p1 p2.
      evaluate_answer near_mastery_service test_question test_answer ''EN'' (test_evaluation 0.95) =
        Inr (s1, test_evaluation 0.95) \<and>
      evaluate_answers s1 [(test_question, test_answer, ''EN'', test_evaluation 0)] = Inr s2 \<and>
      get_topic_progress s1 ''Python'' ''EN'' = Some p1 \<and>
      get_topic_progress s2 ''Python'' ''EN'' = Some p2 \<and>
      dict_get (p_subtopic_scores p1) ''Decorators'' = Some 0.875 \<and>
      ''Decorators'' \<in> set (p_mastered_subtopics p1) \<and>
      dict_get (p_subtopic_scores p2) ''Decorators'' = Some 0.4375 \<and>
      ''Decorators'' \<in> set (p_mastered_subtopics p2) \<and>
      distinct (p_mastered_subtopics p2)"
    by (intro exI conjI)
  with inv rec notin dist show ?thesis by (intro conjI)
qed

subsection \<open>Analysing a session\<close>

text \<open>
  Claim C3. With a progress record stored for the topic and language, whatever the oracle
  replies and however pydantic reads it, a UserProgress that \<^verbatim>\<open>analyze_performance\<close>
  returns has the mastered subtopics and the subtopic scores of the stored record,
  unchanged, and storing it (as the caller does) makes it the record of the topic and
  language. The call does return whenever the reply is a dict that pydantic accepts and
  that repeats none of the keywords written out in the call; a reply that names
  \<open>mastered_subtopics\<close> or \<open>subtopic_scores\<close> itself makes the call raise, so it
  cannot replace them.
\<close>

theorem analyze_performance_preserves_mastery:
  assumes rec: "get_topic_progress s topic language = Some e"
  shows "(\<forall>p. analyze_performance validate s topic session_data language now analysis = Inr p \<longrightarrow>
            p_mastered_subtopics p = p_mastered_subtopics e \<and>
            p_subtopic_scores p = p_subtopic_scores e \<and>
            (\<forall>s'. update_progress s p = Inr s' \<longrightarrow> get_topic_progress s' topic language = Some p)) \<and>
         (\<forall>kw fields. analysis = PDict kw \<and> validate kw = Inr fields \<and>
            list_all (\<lambda>k. k \<notin> set explicit_keywords) (map fst kw) \<longrightarrow>
            (\<exists>p. analyze_performance validate s topic session_data language now analysis = Inr p))"
proof (intro conjI allI impI)
  fix p
  assume a: "analyze_performance validate s topic session_data language now analysis = Inr p"
  then obtain kw fields where p: "p =
      \<lparr>p_topic = topic, p_skill_level = fst fields, p_confidence_score = fst (snd fields),
       p_last_session = Some now, p_language = language, p_recommended_topics = snd (snd fields),
       p_mastered_subtopics = p_mastered_subtopics e, p_subtopic_scores = p_subtopic_scores e\<rparr>"
    using rec
    by (auto simp: analyze_performance_def Let_def and_then_eq_Inr split: pyval.splits if_splits)
  show "p_mastered_subtopics p = p_mastered_subtopics e" by (simp add: p)
  show "p_subtopic_scores p = p_subtopic_scores e" by (simp add: p)
  fix s'
  assume "update_progress s p = Inr s'"
  from update_progress_history [OF this]
  show "get_topic_progress s' topic language = Some p"
    by (simp add: get_topic_progress_def p)
next
  fix kw fields
  assume "analysis = PDict kw \<and> validate kw = Inr fields \<and>
            list_all (\<lambda>k. k \<notin> set explicit_keywords) (map fst kw)"
  then show "\<exists>p. analyze_performance validate s topic session_data language now analysis = Inr p"
    by (auto simp: analyze_performance_def Let_def list_ex_iff list_all_iff)
qed

theorem analyze_performance_preserves_mastery_witness:
  "get_topic_progress test_service ''Python'' ''EN'' = Some test_progress \<and>
   (\<exists>p. analyze_performance validate_strict test_service ''Python'' test_session ''EN'' test_now
           test_analysis = Inr p \<and>
      p_skill_level p = ''Advanced'' \<and>
      p_mastered_subtopics p = [''List Comprehension'', ''Basic Functions''] \<and>
      p_subtopic_scores p =
        [(''List Comprehension'', 0.9), (''Basic Functions'', 0.95), (''Decorators'', 0.6)] \<and>
      (\<exists>s'. update_progress test_service p = Inr s' \<and>
         get_topic_progress s' ''Python'' ''EN'' = Some p))"
proof -
  let ?a = "analyze_performance validate_strict test_service ''Python'' test_session ''EN'' test_now
           test_analysis"
  note T = analyze_performance_preserves_mastery [OF test_service_record,
      where validate = validate_strict and session_data = test_session and now = test_now
        and analysis = test_analysis]
  have v: "validate_strict
      [(''skill_level'', PStr ''Advanced''), (''confidence_score'', PFloat 0.9),
       (''recommended_topics'', PList [PStr ''Generators'', PStr ''Context Managers''])] =
      Inr (''Advanced'', 0.9, [''Generators'', ''Context Managers''])"
    by (simp add: validate_strict_def)
  have "\<exists>p. ?a = Inr p"
    by (rule T [THEN conjunct2, rule_format,
          of "[(''skill_level'', PStr ''Advanced''), (''confidence_score'', PFloat 0.9),
                (''recommended_topics'', PList [PStr ''Generators'', PStr ''Context Managers''])]"
             "(''Advanced'', 0.9, [''Generators'', ''Context Managers''])"])
       (simp add: test_analysis_def v explicit_keywords_def)
  then obtain p where p: "?a = Inr p" by blast
  have lvl: "p_skill_level p = ''Advanced''"
    using p test_service_record v
    by (auto simp: analyze_performance_def test_analysis_def explicit_keywords_def)
  obtain s' where up: "update_progress test_service p = Inr s'"
    using update_progress_ok by blast
  from T p up have
    "p_mastered_subtopics p = p_mastered_subtopics test_progress"
    "p_subtopic_scores p = p_subtopic_scores test_progress"
    "get_topic_progress s' ''Python'' ''EN'' = Some p"
    by blast+
  with p lvl up test_service_record show ?thesis
    by (auto simp: test_progress_def)
qed

subsection \<open>Loading the history\<close>

text \<open>
  Claim C6. \<^verbatim>\<open>_load_history\<close> answers the empty state, the dict with an empty list
  of sessions and an empty dict of progress records, for an absent file. A file that
  may not be read, a directory and text that is not JSON raise their own error, and a
  JSON document gives what \<^verbatim>\<open>_deserialize_datetime\<close> makes of it, errors included
  (a timestamp that is no ISO text raises ValueError): the \<^verbatim>\<open>except\<close> clause never
  fires for a file that is there. So the empty state comes back only for an absent file
  or for a document that itself holds the empty state.
\<close>

theorem load_history_empty_only_when_absent:
  "load_history Absent = Inr (PDict [(''sessions'', PList []), (''progress'', PDict [])]) \<and>
   load_history Unreadable = Inl PermissionError \<and>
   load_history IsDirectory = Inl IsADirectoryError \<and>
   load_history Corrupt = Inl JSONDecodeError \<and>
   load_history (Document data) = deserialize_datetime data \<and>
   load_history (Document (PDict [(''sessions'', PList [PDict [(''timestamp'', PStr ''yesterday'')]])]))
     = Inl ValueError \<and>
   (load_history f = Inr (PDict [(''sessions'', PList []), (''progress'', PDict [])]) \<longleftrightarrow>
      f = Absent \<or>
      (\<exists>doc. f = Document doc \<and>
         deserialize_datetime doc = Inr (PDict [(''sessions'', PList []), (''progress'', PDict [])])))"
proof -
  have doc: "load_history (Document d) = deserialize_datetime d" for d
  proof (cases "deserialize_datetime d")
    case (Inl e)
    with deserialize_datetime_error [of d] show ?thesis
      by (simp add: load_history_def read_json_def)
  next
    case (Inr x)
    then show ?thesis by (simp add: load_history_def read_json_def)
  qed
  have bad: "load_history (Document (PDict [(''sessions'', PList [PDict [(''timestamp'', PStr ''yesterday'')]])]))
     = Inl ValueError"
    unfolding doc
    by (simp add: deserialize_datetime_def py_in_def py_getitem_def deserialize_sessions_def
        deserialize_session_def py_fromisoformat_def fromisoformat_def)
  have others: "load_history Absent = Inr (PDict [(''sessions'', PList []), (''progress'', PDict [])])"
    "load_history Unreadable = Inl PermissionError"
    "load_history IsDirectory = Inl IsADirectoryError"
    "load_history Corrupt = Inl JSONDecodeError"
    by (simp_all add: load_history_def read_json_def empty_history_dict_def)
  have iff: "load_history f = Inr (PDict [(''sessions'', PList []), (''progress'', PDict [])]) \<longleftrightarrow>
      f = Absent \<or>
      (\<exists>doc. f = Document doc \<and>
         deserialize_datetime doc = Inr (PDict [(''sessions'', PList []), (''progress'', PDict [])]))"
    by (cases f) (simp_all add: others doc)
  from others doc bad iff show ?thesis by (intro conjI)
qed

subsection \<open>The prompt\<close>

text \<open>
  Claim C9. The prompt that \<^verbatim>\<open>generate_question\<close> sends to the oracle contains, for
  every mastered subtopic of the record stored for the topic and language, the line
  \<^verbatim>\<open>- subtopic\<close>, and for every question of the previous-questions list its entry with
  the text, the topic and the subtopic of the question.
\<close>

theorem generate_question_prompt_exclusions:
  shows "(\<forall>p. get_topic_progress s topic language = Some p \<longrightarrow>
          (\<forall>sub \<in> set (p_mastered_subtopics p).
            sublist (''- '' @ sub @ ''\<newline>'')
              (generate_question_prompt s topic difficulty language previous_questions) \<and>
            sublist sub (generate_question_prompt s topic difficulty language previous_questions))) \<and>
         (\<forall>qs. previous_questions = Some qs \<longrightarrow>
          (\<forall>q \<in> set qs.
            sublist (''. Question: '' @ q_question_text q @ ''\<newline>   Topic: '' @ q_topic q @
                     ''\<newline>   Subtopic: '' @ q_subtopic q @ ''\<newline>'')
              (generate_question_prompt s topic difficulty language previous_questions) \<and>
            sublist (q_question_text q)
              (generate_question_prompt s topic difficulty language previous_questions) \<and>
            sublist (q_topic q)
              (generate_question_prompt s topic difficulty language previous_questions) \<and>
            sublist (q_subtopic q)
              (generate_question_prompt s topic difficulty language previous_questions)))"
proof (intro conjI allI impI ballI)
  let ?prompt = "generate_question_prompt s topic difficulty language previous_questions"
  fix p sub
  assume rec: "get_topic_progress s topic language = Some p"
  assume sub: "sub \<in> set (p_mastered_subtopics p)"
  then have ne: "p_mastered_subtopics p \<noteq> []" by auto
  show line: "sublist (''- '' @ sub @ ''\<newline>'') ?prompt"
    using rec ne mastered_lines_line [OF sub] by (rule prompt_has_mastered_text)
  have "sublist sub (''- '' @ sub @ ''\<newline>'')"
    by (rule sublist_in_right) (rule sublist_in_left, rule sublist_order.order.refl)
  then show "sublist sub ?prompt" using line by (rule sublist_of_part)
next
  let ?prompt = "generate_question_prompt s topic difficulty language previous_questions"
  fix qs q
  assume prev: "previous_questions = Some qs"
  assume q: "q \<in> set qs"
  then have ne: "qs \<noteq> []" by auto
  let ?line = "''. Question: '' @ q_question_text q @ ''\<newline>   Topic: '' @ q_topic q @
                     ''\<newline>   Subtopic: '' @ q_subtopic q @ ''\<newline>''"
  show line: "sublist ?line ?prompt"
    using prev ne previous_lines_line [OF q] by (rule prompt_has_previous_text)
  have "sublist (q_question_text q) ?line"
    by (rule sublist_in_right) (rule sublist_in_left, rule sublist_order.order.refl)
  then show "sublist (q_question_text q) ?prompt" using line by (rule sublist_of_part)
  have "sublist (q_topic q) ?line"
    by (rule sublist_in_right, rule sublist_in_right, rule sublist_in_right)
       (rule sublist_in_left, rule sublist_order.order.refl)
  then show "sublist (q_topic q) ?prompt" using line by (rule sublist_of_part)
  have "sublist (q_subtopic q) ?line"
    by (rule sublist_in_right, rule sublist_in_right, rule sublist_in_right, rule sublist_in_right,
        rule sublist_in_right)
       (rule sublist_in_left, rule sublist_order.order.refl)
  then show "sublist (q_subtopic q) ?prompt" using line by (rule sublist_of_part)
qed

theorem generate_question_prompt_exclusions_witness:
  "get_topic_progress test_service ''Python'' ''EN'' = Some test_progress \<and>
   ''Basic Functions'' \<in> set (p_mastered_subtopics test_progress) \<and>
   test_question \<in> set [test_question] \<and>
   sublist ''- Basic Functions\<newline>''
     (generate_question_prompt test_service ''Python'' ''Intermediate'' ''EN'' (Some [test_question])) \<and>
   sublist ''. Question: What are decorators in Python?\<newline>   Topic: Python\<newline>   Subtopic: Decorators\<newline>''
     (generate_question_prompt test_service ''Python'' ''Intermediate'' ''EN'' (Some [test_question]))"
proof -
  have m: "''Basic Functions'' \<in> set (p_mastered_subtopics test_progress)"
    by (simp add: test_progress_def)
  have q: "test_question \<in> set [test_question]" by simp
  note T = generate_question_prompt_exclusions [of test_service "''Python''" "''EN''"
      "''Intermediate''" "Some [test_question]"]
  from T test_service_record m have a: "sublist (''- '' @ ''Basic Functions'' @ ''\<newline>'')
     (generate_question_prompt test_service ''Python'' ''Intermediate'' ''EN'' (Some [test_question]))"
    by blast
  from T q have b: "sublist (''. Question: '' @ q_question_text test_question @ ''\<newline>   Topic: '' @
        q_topic test_question @ ''\<newline>   Subtopic: '' @ q_subtopic test_question @ ''\<newline>'')
     (generate_question_prompt test_service ''Python'' ''Intermediate'' ''EN'' (Some [test_question]))"
    by blast
  from a have a': "sublist ''- Basic Functions\<newline>''
     (generate_question_prompt test_service ''Python'' ''Intermediate'' ''EN'' (Some [test_question]))"
    by simp
  from b have b': "sublist ''. Question: What are decorators in Python?\<newline>   Topic: Python\<newline>   Subtopic: Decorators\<newline>''
     (generate_question_prompt test_service ''Python'' ''Intermediate'' ''EN'' (Some [test_question]))"
    by (simp add: test_question_def)
  from test_service_record m q a' b' show ?thesis by (intro conjI)
qed

subsection \<open>Timestamps in the history file\<close>

text \<open>
  Claim C5. Timestamps round-trip exactly: the ISO text that \<^verbatim>\<open>_serialize_datetime\<close>
  writes for the timestamp of a session or the \<open>last_session\<close> of a progress record is
  read back by \<^verbatim>\<open>datetime.fromisoformat\<close> as the same datetime, microseconds
  included, and loading the file that \<^verbatim>\<open>_save_history\<close> wrote gives the history dict
  that was saved, every field as it was.
\<close>

theorem timestamps_round_trip:
  assumes "valid_timestamps (history s)"
  shows "\<exists>s'. save_history s = Inr s' \<and> history s' = history s \<and>
           load_history (history_file s') = Inr (history_dict (history s)) \<and>
           list_all (\<lambda>x. and_then (serialize_datetime (PDatetime (s_timestamp x))) fromisoformat =
                          Inr (s_timestamp x))
             (sessions (history s)) \<and>
           list_all (\<lambda>kp. case p_last_session (snd kp) of
                            None \<Rightarrow> True
                          | Some d \<Rightarrow> and_then (serialize_datetime (PDatetime d)) fromisoformat = Inr d)
             (progress (history s))"
proof -
  obtain doc where doc: "json_dump (history_dict (history s)) = Inr doc"
    using json_dump_history by blast
  then have sv: "save_history s = Inr (s\<lparr>history_file := Document doc\<rparr>)"
    by (simp add: save_history_def)
  have ld: "load_history (Document doc) = Inr (history_dict (history s))"
    using history_round_trip [OF assms doc] by (simp add: load_history_def read_json_def)
  have one: "valid_datetime d \<Longrightarrow>
      and_then (serialize_datetime (PDatetime d)) fromisoformat = Inr d" for d
    by (simp add: serialize_datetime_def fromisoformat_isoformat)
  have a: "list_all (\<lambda>x. and_then (serialize_datetime (PDatetime (s_timestamp x))) fromisoformat =
                          Inr (s_timestamp x)) (sessions (history s))"
    using assms by (auto simp: valid_timestamps_def list_all_iff one)
  have b: "list_all (\<lambda>kp. case p_last_session (snd kp) of
                            None \<Rightarrow> True
                          | Some d \<Rightarrow> and_then (serialize_datetime (PDatetime d)) fromisoformat = Inr d)
             (progress (history s))"
    using assms by (auto simp: valid_timestamps_def list_all_iff one split: option.splits)
  show ?thesis
    by (rule exI [of _ "s\<lparr>history_file := Document doc\<rparr>"]) (simp add: sv ld a b)
qed


theorem timestamps_round_trip_witness:
  "valid_timestamps (history test_history_service) \<and>
   serialize_datetime (PDatetime test_now) = Inr ''2024-02-29T09:05:07.001500'' \<and>
   fromisoformat ''2024-02-29T09:05:07.001500'' = Inr test_now \<and>
   (\<exists>s'. save_history test_history_service = Inr s' \<and>
      load_history (history_file s') = Inr (history_dict (history test_history_service)))"
proof -
  have v: "valid_timestamps (history test_history_service)"
    by (simp add: valid_timestamps_def test_history_service_def test_session_def test_progress_def
        test_now_valid)
  from timestamps_round_trip [OF v] obtain s'
    where sv: "save_history test_history_service = Inr s'"
      and ld: "load_history (history_file s') = Inr (history_dict (history test_history_service))"
      and ts: "list_all (\<lambda>x. and_then (serialize_datetime (PDatetime (s_timestamp x))) fromisoformat =
                          Inr (s_timestamp x)) (sessions (history test_history_service))"
    by blast
  have ser: "serialize_datetime (PDatetime test_now) = Inr ''2024-02-29T09:05:07.001500''"
    by (simp add: serialize_datetime_def test_now_text)
  from ts have "and_then (serialize_datetime (PDatetime test_now)) fromisoformat = Inr test_now"
    by (simp add: test_history_service_def test_session_def)
  then have de: "fromisoformat ''2024-02-29T09:05:07.001500'' = Inr test_now"
    by (simp add: ser)
  from sv ld have "\<exists>s'. save_history test_history_service = Inr s' \<and>
      load_history (history_file s') = Inr (history_dict (history test_history_service))"
    by blast
  with v ser de show ?thesis by (intro conjI)
qed

end
